theory Spec2Isabelle
  imports Complex_Main "HOL-Library.AList"
begin

section \<open>VIIRS daily mosaic: \<^verbatim>\<open>src/normal_gen/viirs_mosaic.py\<close>\<close>

text \<open>
  The module turns the HDF5 granules of one acquisition date into GeoTIFF rasters
  (\<^verbatim>\<open>build_viirs_tif\<close>), reprojects each raster (\<^verbatim>\<open>reproject_viirs\<close>) and merges the
  reprojected rasters into the mosaic of the day (\<^verbatim>\<open>create_viirs_mosaic\<close>);
  \<^verbatim>\<open>process_viirs\<close> runs the three stages, the first two through \<^verbatim>\<open>distribute\<close>.

  Conventions of the embedding.
  \<^item> A Python exception is a value of \<open>error\<close>; a function that can raise returns
    \<open>error + 'a\<close> with \<open>Inl\<close> the exception.
  \<^item> A Python \<^verbatim>\<open>bytes\<close> object is a \<open>string\<close> (a list of 8-bit characters). A Python
    \<^verbatim>\<open>str\<close> is represented by its UTF-8 encoding, again a \<open>string\<close>: every pattern the
    module searches for is ASCII, and an ASCII byte never occurs inside a multi-byte
    UTF-8 sequence, so searching, splitting and replacing on the encoding agree with the
    same operations on the code points.
  \<^item> A Python \<^verbatim>\<open>float\<close> is represented by the real number it denotes. The module does
    no arithmetic on floats: it parses them, writes them as literals and hands them to
    the raster library. Where the raster library computes a grid from them, its
    arithmetic is done in the reals.
  \<^item> The file system is a list of (path, file) pairs in directory-listing order. Paths are
    compared as strings. Directories are not files of the model: \<^verbatim>\<open>os.makedirs\<close>, which the
    module always wraps in \<^verbatim>\<open>try: ... except: pass\<close>, leaves the list unchanged, and a
    file can be created at any path.
  \<^item> The libraries are not part of the module. What they document about the grid of
    their result (the bounds of a raster, the pixel size \<^verbatim>\<open>calculate_default_transform\<close>
    gives for a requested resolution, the shape and transform \<^verbatim>\<open>merge\<close> gives for a
    bounding box) is written out; what they compute beyond that (\<^verbatim>\<open>float\<close> on text,
    the default destination grid of a warp, the resampled pixels, the merged pixels) is
    a parameter of the model, a field of the record \<open>geolib\<close>.
\<close>

subsection \<open>Exceptions\<close>

datatype error =
    OSError
  | KeyError
  | IndexError
  | ValueError
  | UnicodeDecodeError
  | TypeError
  | RasterioIOError

definition bind_err :: "error + 'a \<Rightarrow> ('a \<Rightarrow> error + 'b) \<Rightarrow> error + 'b" where
  "bind_err m f = (case m of Inl e \<Rightarrow> Inl e | Inr x \<Rightarrow> f x)"

text \<open>\<^verbatim>\<open>xs[0]\<close> and \<^verbatim>\<open>xs[1]\<close>: an index out of range raises \<^verbatim>\<open>IndexError\<close>.\<close>

fun index0 :: "'a list \<Rightarrow> error + 'a" where
  "index0 [] = Inl IndexError"
| "index0 (x # xs) = Inr x"

fun index1 :: "'a list \<Rightarrow> error + 'a" where
  "index1 (x # y # xs) = Inr y"
| "index1 xs = Inl IndexError"

subsection \<open>Python string operations\<close>

text \<open>\<^verbatim>\<open>s.startswith(p)\<close> and \<^verbatim>\<open>s.endswith(p)\<close>.\<close>

definition startswith :: "string \<Rightarrow> string \<Rightarrow> bool" where
  "startswith s p = (take (length p) s = p)"

definition endswith :: "string \<Rightarrow> string \<Rightarrow> bool" where
  "endswith s p = (length p \<le> length s \<and> drop (length s - length p) s = p)"

text \<open>\<^verbatim>\<open>p in s\<close> on strings: \<open>p\<close> occurs in \<open>s\<close> as a contiguous substring.\<close>

fun contains :: "string \<Rightarrow> string \<Rightarrow> bool" where
  "contains [] p = (p = [])"
| "contains (c # cs) p = (startswith (c # cs) p \<or> contains cs p)"

text \<open>
  \<^verbatim>\<open>s.split(sep)\<close> for a non-empty separator: the occurrences of \<open>sep\<close> are found from
  left to right, without overlap, and the pieces between them are returned (at least one
  piece, possibly empty).
\<close>

fun split :: "string \<Rightarrow> string \<Rightarrow> string list" where
  "split [] sep = [[]]"
| "split (c # cs) sep =
     (if sep \<noteq> [] \<and> startswith (c # cs) sep
      then [] # split (drop (length sep) (c # cs)) sep
      else (case split cs sep of
              [] \<Rightarrow> [[c]]
            | w # ws \<Rightarrow> (c # w) # ws))"

text \<open>\<^verbatim>\<open>s.replace(old, '')\<close> for a one-character \<open>old\<close>: every occurrence is removed.\<close>

definition remove_char :: "string \<Rightarrow> char \<Rightarrow> string" where
  "remove_char s c = filter (\<lambda>x. x \<noteq> c) s"

text \<open>\<^verbatim>\<open>sep.join(parts)\<close>.\<close>

fun join :: "string \<Rightarrow> string list \<Rightarrow> string" where
  "join sep [] = []"
| "join sep [p] = p"
| "join sep (p # q # ps) = p @ sep @ join sep (q # ps)"

text \<open>
  \<^verbatim>\<open>blob.split()\<close> on bytes, without argument: the maximal runs of bytes that are not
  ASCII whitespace (space, tab, newline, carriage return, vertical tab, form feed); no
  token is empty.
\<close>

definition isspace :: "char \<Rightarrow> bool" where
  "isspace c = (c \<in> {CHR '' '', CHR 0x09, CHR 0x0A, CHR 0x0D, CHR 0x0B, CHR 0x0C})"

fun split_ws_from :: "string \<Rightarrow> string \<Rightarrow> string list" where
  "split_ws_from cur [] = (if cur = [] then [] else [rev cur])"
| "split_ws_from cur (c # cs) =
     (if isspace c
      then (if cur = [] then split_ws_from [] cs else rev cur # split_ws_from [] cs)
      else split_ws_from (c # cur) cs)"

definition split_ws :: "string \<Rightarrow> string list" where
  "split_ws blob = split_ws_from [] blob"

text \<open>
  \<^verbatim>\<open>m.decode('utf-8')\<close>: strict UTF-8 (no overlong form, no surrogate, nothing above
  U+10FFFF); ill-formed input raises \<^verbatim>\<open>UnicodeDecodeError\<close>. The decoded text is
  represented by the bytes themselves.
\<close>

definition cont_byte :: "nat \<Rightarrow> bool" where
  "cont_byte b = (0x80 \<le> b \<and> b \<le> 0xBF)"

fun valid_utf8 :: "nat list \<Rightarrow> bool" where
  "valid_utf8 [] = True"
| "valid_utf8 (a # bs) =
     (if a \<le> 0x7F then valid_utf8 bs
      else if 0xC2 \<le> a \<and> a \<le> 0xDF then
        (case bs of b # r \<Rightarrow> cont_byte b \<and> valid_utf8 r | _ \<Rightarrow> False)
      else if 0xE0 \<le> a \<and> a \<le> 0xEF then
        (case bs of b # c # r \<Rightarrow>
           (if a = 0xE0 then 0xA0 \<le> b \<and> b \<le> 0xBF
            else if a = 0xED then 0x80 \<le> b \<and> b \<le> 0x9F
            else cont_byte b) \<and> cont_byte c \<and> valid_utf8 r
         | _ \<Rightarrow> False)
      else if 0xF0 \<le> a \<and> a \<le> 0xF4 then
        (case bs of b # c # d # r \<Rightarrow>
           (if a = 0xF0 then 0x90 \<le> b \<and> b \<le> 0xBF
            else if a = 0xF4 then 0x80 \<le> b \<and> b \<le> 0x8F
            else cont_byte b) \<and> cont_byte c \<and> cont_byte d \<and> valid_utf8 r
         | _ \<Rightarrow> False)
      else False)"

definition decode_utf8 :: "string \<Rightarrow> error + string" where
  "decode_utf8 m = (if valid_utf8 (map of_char m) then Inr m else Inl UnicodeDecodeError)"

text \<open>\<^verbatim>\<open>[m.decode('utf-8') for m in ms]\<close>: the first token that fails to decode raises.\<close>

fun decode_all :: "string list \<Rightarrow> error + string list" where
  "decode_all [] = Inr []"
| "decode_all (m # ms) =
     bind_err (decode_utf8 m) (\<lambda>t. bind_err (decode_all ms) (\<lambda>ts. Inr (t # ts)))"

subsection \<open>\<^verbatim>\<open>os.path\<close>\<close>

text \<open>
  \<^verbatim>\<open>os.path.join(a, b)\<close> (POSIX): an absolute \<open>b\<close> replaces \<open>a\<close>; otherwise \<open>b\<close> is
  appended, after a slash unless \<open>a\<close> is empty or ends with one.
\<close>

definition path_join :: "string \<Rightarrow> string \<Rightarrow> string" where
  "path_join a b =
     (if startswith b ''/'' then b
      else if a = [] \<or> endswith a ''/'' then a @ b
      else a @ ''/'' @ b)"

text \<open>\<^verbatim>\<open>os.path.join(a, *ps)\<close>.\<close>

definition os_path_join :: "string \<Rightarrow> string list \<Rightarrow> string" where
  "os_path_join a ps = foldl path_join a ps"

text \<open>\<^verbatim>\<open>os.path.split(p)[-1]\<close>: what follows the last slash.\<close>

definition basename :: "string \<Rightarrow> string" where
  "basename p = rev (takeWhile (\<lambda>c. c \<noteq> CHR ''/'') (rev p))"

text \<open>
  \<^verbatim>\<open>".".join(os.path.split(p)[-1].split('.')[:-1])\<close>: the file name without its last
  extension.
\<close>

definition stem :: "string \<Rightarrow> string" where
  "stem p = join ''.'' (butlast (split (basename p) ''.''))"

subsection \<open>Files\<close>

text \<open>
  A value h5py returns for an attribute: a numpy scalar, integer or floating, or an
  array of such values of any dimension (an array of arrays).
\<close>

datatype number = IntV int | FloatV real

datatype ndarray = Scalar number | Array "ndarray list"

text \<open>
  An HDF5 dataset as the module reads it: its attribute table and its rows
  (\<^verbatim>\<open>list(snow)\<close>; the dataset is two-dimensional, so the rows have one length).
\<close>

record dataset =
  attrs :: "string \<rightharpoonup> ndarray"
  rows :: "int list list"

datatype h5_object = Group | Dataset dataset

text \<open>
  An open granule: the value of \<^verbatim>\<open>f['HDFEOS INFORMATION']['StructMetadata.0'][()]\<close>
  (\<open>None\<close> when that object is missing), the member names of \<^verbatim>\<open>f['HDFEOS']['GRIDS']\<close>
  (\<open>None\<close> when the group is missing), and every object of the file in the order
  \<^verbatim>\<open>f.visit\<close> yields them, each under its path.
\<close>

record granule =
  struct_metadata :: "string option"
  grids :: "string list option"
  objects :: "(string \<times> h5_object) list"

type_synonym geotransform = "real \<times> real \<times> real \<times> real \<times> real \<times> real"

text \<open>
  A raster file: the metadata rasterio reports as \<^verbatim>\<open>src.meta\<close> and the pixel rows of
  every band. The geotransform is kept in GDAL order (origin x, pixel width, 0,
  origin y, 0, pixel height).
\<close>

record raster =
  driver :: string
  width :: nat
  height :: nat
  count :: nat
  nodata :: "real option"
  crs :: string
  transform :: geotransform
  bands :: "int list list list"

datatype content = Granule granule | Raster raster | Other string

type_synonym filesystem = "(string \<times> content) list"

text \<open>\<^verbatim>\<open>h5py.File(scene, 'r')\<close>: a missing file or one that is not HDF5 raises \<^verbatim>\<open>OSError\<close>.\<close>

definition h5py_File :: "filesystem \<Rightarrow> string \<Rightarrow> error + granule" where
  "h5py_File fs scene =
     (case map_of fs scene of Some (Granule f) \<Rightarrow> Inr f | _ \<Rightarrow> Inl OSError)"

text \<open>\<^verbatim>\<open>rio.open(src, 'r')\<close>: a missing file or one that is not a raster raises.\<close>

definition rio_open :: "filesystem \<Rightarrow> string \<Rightarrow> error + raster" where
  "rio_open fs src =
     (case map_of fs src of Some (Raster r) \<Rightarrow> Inr r | _ \<Rightarrow> Inl RasterioIOError)"

text \<open>
  \<^verbatim>\<open>glob(os.path.join(dir, '*' + suffix))\<close>: the paths of the files directly in \<open>dir\<close>
  whose name ends with \<open>suffix\<close> and does not start with a dot (\<^verbatim>\<open>*\<close> does not match a
  leading dot), in listing order. \<open>dir\<close> is taken literally.
\<close>

definition glob_star :: "filesystem \<Rightarrow> string \<Rightarrow> string \<Rightarrow> string list" where
  "glob_star fs dir suffix =
     [p \<leftarrow> map fst fs.
        p = path_join dir (basename p) \<and> \<not> startswith (basename p) ''.'' \<and>
        endswith (basename p) suffix]"

subsection \<open>The libraries\<close>

datatype resampling = Nearest | Bilinear | Cubic

text \<open>The array \<^verbatim>\<open>merge\<close> returns, with its shape (bands, rows, columns).\<close>

record array3 =
  shape0 :: nat
  shape1 :: nat
  shape2 :: nat
  cells :: "int list list list"

text \<open>
  What the libraries compute and the model leaves open:
  \<^item> \<open>py_float\<close>: \<^verbatim>\<open>float(s)\<close> on text, \<open>None\<close> where it raises \<^verbatim>\<open>ValueError\<close>;
  \<^item> \<open>np_float\<close>: \<^verbatim>\<open>float(v)\<close> on a numpy integer too large to be a float exactly
    (the nearest float) and on a numpy array (the single element of an array numpy
    agrees to convert), \<open>None\<close> where it raises \<^verbatim>\<open>TypeError\<close>;
  \<^item> \<open>suggested_warp_output\<close>: the destination grid GDAL proposes for a warp from the
    source CRS to the destination CRS, from the source's width, height, left, bottom,
    right and top: a transform, a width and a height;
  \<^item> \<open>reproject\<close>: the source band (raster and band number), the destination band
    (raster under construction and band number), source transform and CRS, destination
    transform and CRS, and the resampling method, giving the rows written to the
    destination band;
  \<^item> \<open>merge_cells\<close>: the pixels \<^verbatim>\<open>merge\<close> copies from the open sources, in order, onto
    the destination grid given by its transform, height and width.
\<close>

record geolib =
  py_float :: "string \<Rightarrow> real option"
  np_float :: "ndarray \<Rightarrow> real option"
  suggested_warp_output ::
    "string \<Rightarrow> string \<Rightarrow> nat \<Rightarrow> nat \<Rightarrow> real \<Rightarrow> real \<Rightarrow> real \<Rightarrow> real
       \<Rightarrow> geotransform \<times> nat \<times> nat"
  reproject ::
    "raster \<times> nat \<Rightarrow> raster \<times> nat \<Rightarrow> geotransform \<Rightarrow> string \<Rightarrow> geotransform \<Rightarrow> string
       \<Rightarrow> resampling \<Rightarrow> int list list"
  merge_cells :: "raster list \<Rightarrow> geotransform \<Rightarrow> nat \<Rightarrow> nat \<Rightarrow> int list list list"

text \<open>
  \<^verbatim>\<open>src.bounds\<close> (rasterio): left, bottom, right and top of the raster's extent. For a
  transform without rotation these are the origin and the origin moved by width and
  height pixels; otherwise the extremes of the four corners.
\<close>

definition bounds :: "raster \<Rightarrow> real \<times> real \<times> real \<times> real" where
  "bounds r =
     (case transform r of
        (c, a, b, f, d, e) \<Rightarrow>
          (let w = real (width r); h = real (height r)
           in if b = 0 \<and> d = 0 then (c, f + e * h, c + a * w, f)
              else (let xs = [c, c + b * h, c + a * w + b * h, c + a * w];
                        ys = [f, f + e * h, f + d * w + e * h, f + d * w]
                    in (Min (set xs), Min (set ys), Max (set xs), Max (set ys)))))"

text \<open>
  \<^verbatim>\<open>calculate_default_transform(..., resolution=res)\<close> (rasterio): GDAL's proposal keeps
  its origin and rotation, the pixel size becomes \<open>res\<close> by \<open>-res\<close>, and width and height
  are scaled by the ratio of the proposed pixel size to the requested one, rounded up.
  GDAL proposes a north-up grid, of positive pixel width and negative pixel height, so
  both ratios are positive.
\<close>

definition calculate_default_transform ::
  "geolib \<Rightarrow> string \<Rightarrow> string \<Rightarrow> nat \<Rightarrow> nat \<Rightarrow> real \<Rightarrow> real \<Rightarrow> real \<Rightarrow> real \<Rightarrow> real
     \<Rightarrow> geotransform \<times> nat \<times> nat" where
  "calculate_default_transform lib src_crs dst_crs w h b_left b_bottom b_right b_top res =
     (case suggested_warp_output lib src_crs dst_crs w h b_left b_bottom b_right b_top of
        ((c, a, b, f, d, e), dst_width, dst_height) \<Rightarrow>
          (let xres = res; yres = - res;
               xratio = a / xres; yratio = e / yres
           in ((c, xres, b, f, d, yres),
               nat \<lceil>real dst_width * xratio\<rceil>, nat \<lceil>real dst_height * yratio\<rceil>)))"

text \<open>\<^verbatim>\<open>round(x)\<close> (Python): the nearest integer, the even one of two equally near.\<close>

definition py_round :: "real \<Rightarrow> int" where
  "py_round x =
     (let n = \<lfloor>x\<rfloor>; d = x - of_int n
      in if d < 1 / 2 then n else if 1 / 2 < d then n + 1 else if even n then n else n + 1)"

text \<open>
  \<^verbatim>\<open>merge(sources, bounds=(w, s, e, n), res=res)\<close> (rasterio): the mosaic's grid starts at
  the west and north of the box with pixels of \<open>res\<close> by \<open>-res\<close>; its width and height are
  the box's extent divided by \<open>res\<close> and rounded (earlier releases round up, which gives
  the same counts for the box of line 160); it has the band count of the first source.
  The east and south of the mosaic are where that many pixels end, not the east and
  south of the box.
\<close>

definition merge ::
  "geolib \<Rightarrow> raster list \<Rightarrow> real \<times> real \<times> real \<times> real \<Rightarrow> real \<Rightarrow> array3 \<times> geotransform" where
  "merge lib sources box res =
     (case box of
        (dst_w, dst_s, dst_e, dst_n) \<Rightarrow>
          (let output_transform = (dst_w, res, 0, dst_n, 0, - res);
               output_width = nat (py_round ((dst_e - dst_w) / res));
               output_height = nat (py_round ((dst_n - dst_s) / res));
               output_count = count (hd sources)
           in (\<lparr> shape0 = output_count, shape1 = output_height, shape2 = output_width,
                  cells = merge_cells lib sources output_transform output_height output_width \<rparr>,
               output_transform)))"

subsection \<open>\<^verbatim>\<open>build_viirs_tif\<close>\<close>

definition prj :: string where
  \<open>prj = ''PROJCS["unnamed",        GEOGCS["Unknown datum based upon the custom spheroid",         DATUM["Not specified (based on custom spheroid)",         SPHEROID["Custom spheroid",6371007.181,0]],         PRIMEM["Greenwich",0],        UNIT["degree",0.0174532925199433]],        PROJECTION["Sinusoidal"],         PARAMETER["longitude_of_center",0],         PARAMETER["false_easting",0],         PARAMETER["false_northing",0],         UNIT["Meter",1]]''\<close>

text \<open>Line 42: \<^verbatim>\<open>dest\<close>, from \<^verbatim>\<open>name\<close> of line 41.\<close>

definition dest :: "string \<Rightarrow> string \<Rightarrow> string" where
  "dest date scene =
     os_path_join ''data/intermediate_tif/viirs'' [date, stem scene @ ''.tif'']"

text \<open>Lines 57 and 58: the structural metadata, split at whitespace and decoded.\<close>

definition fileMetadata :: "granule \<Rightarrow> error + string list" where
  "fileMetadata f =
     (case struct_metadata f of
        None \<Rightarrow> Inl KeyError
      | Some blob \<Rightarrow> decode_all (split_ws blob))"

text \<open>
  Lines 60 to 65: for every grid, in order, the visited objects that are datasets and
  have the grid's name in their path.
\<close>

definition is_dataset :: "granule \<Rightarrow> string \<Rightarrow> bool" where
  "is_dataset f obj = (case map_of (objects f) obj of Some (Dataset d) \<Rightarrow> True | _ \<Rightarrow> False)"

definition all_datasets :: "granule \<Rightarrow> error + string list" where
  "all_datasets f =
     (case grids f of
        None \<Rightarrow> Inl KeyError
      | Some gs \<Rightarrow>
          (let h5_objs = map fst (objects f)
           in Inr (concat (map (\<lambda>grid. [obj \<leftarrow> h5_objs. is_dataset f obj \<and> contains obj grid])
                        gs))))"

text \<open>Line 67: the first dataset whose path has \<^verbatim>\<open>CGF_NDSI_Snow_Cover\<close> in it.\<close>

definition getitem :: "granule \<Rightarrow> string \<Rightarrow> error + dataset" where
  "getitem f a = (case map_of (objects f) a of Some (Dataset d) \<Rightarrow> Inr d | _ \<Rightarrow> Inl KeyError)"

definition snow_dataset :: "granule \<Rightarrow> error + dataset" where
  "snow_dataset f =
     bind_err (all_datasets f) (\<lambda>ds.
     bind_err (index0 [a \<leftarrow> ds. contains a ''CGF_NDSI_Snow_Cover'']) (\<lambda>a.
     getitem f a))"

text \<open>\<^verbatim>\<open>a[0]\<close> on a numpy value: a scalar cannot be indexed and an empty array has no element.\<close>

fun getitem0 :: "ndarray \<Rightarrow> error + ndarray" where
  "getitem0 (Scalar n) = Inl IndexError"
| "getitem0 (Array []) = Inl IndexError"
| "getitem0 (Array (a # as)) = Inr a"

text \<open>
  Lines 68 to 71: \<^verbatim>\<open>snow.attrs['_FillValue'][0]\<close> raises \<^verbatim>\<open>KeyError\<close> when the attribute
  is missing and \<^verbatim>\<open>IndexError\<close> when it is a scalar or empty; the bare \<^verbatim>\<open>except\<close> turns
  every exception into the integer 255.
\<close>

definition read_FillValue :: "dataset \<Rightarrow> error + ndarray" where
  "read_FillValue snow =
     bind_err (case attrs snow ''_FillValue'' of None \<Rightarrow> Inl KeyError | Some a \<Rightarrow> Inr a) getitem0"

definition fillValue :: "dataset \<Rightarrow> ndarray" where
  "fillValue snow = (case read_FillValue snow of Inl e \<Rightarrow> Scalar (IntV 255) | Inr v \<Rightarrow> v)"

text \<open>
  \<^verbatim>\<open>float(fillValue)\<close> of line 90. A float is itself; an integer of magnitude up to
  \<open>2 ^ 53\<close> is a float exactly; a larger integer is rounded and an array is converted or
  refused (\<^verbatim>\<open>TypeError\<close>) by the library.
\<close>

definition float_value :: "geolib \<Rightarrow> ndarray \<Rightarrow> error + real" where
  "float_value lib v =
     (case v of
        Scalar (FloatV x) \<Rightarrow> Inr x
      | Scalar (IntV i) \<Rightarrow>
          (if \<bar>i\<bar> \<le> 2 ^ 53 then Inr (real_of_int i)
           else (case np_float lib v of None \<Rightarrow> Inl TypeError | Some x \<Rightarrow> Inr x))
      | Array as \<Rightarrow> (case np_float lib v of None \<Rightarrow> Inl TypeError | Some x \<Rightarrow> Inr x))"

text \<open>
  Lines 73 to 75: the first token with \<^verbatim>\<open>UpperLeftPointMtrs\<close> in it; what follows its
  last \<^verbatim>\<open>=(\<close>, without closing parentheses, split at commas; the first two pieces as
  floats. Line 74 is evaluated completely before line 75.
\<close>

definition float_of :: "geolib \<Rightarrow> string \<Rightarrow> error + real" where
  "float_of lib s = (case py_float lib s of None \<Rightarrow> Inl ValueError | Some x \<Rightarrow> Inr x)"

definition ulc_fields :: "string \<Rightarrow> string list" where
  "ulc_fields ulc = split (remove_char (last (split ulc ''=('')) CHR '')'') '',''"

definition upper_left :: "geolib \<Rightarrow> string list \<Rightarrow> error + real \<times> real" where
  "upper_left lib md =
     bind_err (index0 [i \<leftarrow> md. contains i ''UpperLeftPointMtrs'']) (\<lambda>ulc.
     bind_err (bind_err (index0 (ulc_fields ulc)) (float_of lib)) (\<lambda>ulcLon.
     bind_err (bind_err (index1 (ulc_fields ulc)) (float_of lib)) (\<lambda>ulcLat.
     Inr (ulcLon, ulcLat))))"

text \<open>
  Lines 57 to 82 on the open granule: everything that is read and parsed before the
  raster is created: the fill value, the snow rows, the geotransform and the numbers of
  rows and columns. \<^verbatim>\<open>snow.shape[1]\<close> raises \<^verbatim>\<open>IndexError\<close> when the dataset has no row.
\<close>

definition read_granule ::
  "geolib \<Rightarrow> granule \<Rightarrow> error + ndarray \<times> int list list \<times> geotransform \<times> nat \<times> nat" where
  "read_granule lib f =
     bind_err (fileMetadata f) (\<lambda>md.
     bind_err (snow_dataset f) (\<lambda>snow.
     let fill = fillValue snow; snow_rows = rows snow in
     bind_err (upper_left lib md) (\<lambda>(ulcLon, ulcLat).
     bind_err (index0 [i \<leftarrow> md. contains i ''LowerRightMtrs'']) (\<lambda>lrc.
     let yRes = - 375; xRes = 375;
         geoInfo = (ulcLon, xRes, 0, ulcLat, 0, yRes);
         nRow = length snow_rows in
     bind_err (index0 snow_rows) (\<lambda>row0.
     let nCol = length row0 in
     Inr (fill, snow_rows, geoInfo, nRow, nCol))))))"

text \<open>
  Lines 86 to 88: the raster as \<^verbatim>\<open>driver.Create\<close> and \<^verbatim>\<open>WriteArray\<close> leave it: one band
  of \<^verbatim>\<open>nCol\<close> by \<^verbatim>\<open>nRow\<close> with the snow rows, no no-data value, GDAL's default
  geotransform and no projection.
\<close>

definition created :: "int list list \<Rightarrow> nat \<Rightarrow> nat \<Rightarrow> raster" where
  "created snow_rows nRow nCol =
     \<lparr> driver = ''GTiff'', width = nCol, height = nRow, count = 1, nodata = None, crs = [],
       transform = (0, 1, 0, 0, 0, 1), bands = [snow_rows] \<rparr>"

text \<open>
  The function: the granule is opened (line 56), read and parsed; only then is the
  raster created at \<^verbatim>\<open>dest\<close> (line 86), replacing a file already there. Line 90
  converts the fill value before it sets it: when the conversion raises, the raster stays
  as created; otherwise the no-data value, the geotransform and the projection are set
  (lines 90 to 92).
\<close>

definition build_viirs_tif ::
  "geolib \<Rightarrow> string \<Rightarrow> string \<Rightarrow> filesystem \<Rightarrow> (error + unit) \<times> filesystem" where
  "build_viirs_tif lib date scene fs =
     (case h5py_File fs scene of
        Inl e \<Rightarrow> (Inl e, fs)
      | Inr f \<Rightarrow>
          (case read_granule lib f of
             Inl e \<Rightarrow> (Inl e, fs)
           | Inr (fill, snow_rows, geoInfo, nRow, nCol) \<Rightarrow>
               (let outFile = created snow_rows nRow nCol
                in case float_value lib fill of
                     Inl e \<Rightarrow> (Inl e, AList.update (dest date scene) (Raster outFile) fs)
                   | Inr v \<Rightarrow>
                       (Inr (),
                        AList.update (dest date scene)
                          (Raster (outFile \<lparr> nodata := Some v, transform := geoInfo,
                                             crs := prj \<rparr>)) fs))))"

subsection \<open>\<^verbatim>\<open>reproject_viirs\<close>\<close>

text \<open>The resolution written at lines 120 and 161.\<close>

definition resolution :: real where
  "resolution = 0.006659501656959246"

text \<open>Line 111: \<^verbatim>\<open>intermediate_tif\<close>.\<close>

definition intermediate_tif :: "string \<Rightarrow> string \<Rightarrow> string" where
  "intermediate_tif date name =
     os_path_join ''data/intermediate_tif/viirs'' [date, name @ ''_out.tif'']"

text \<open>
  Lines 112 to 140. The source is opened for reading; the destination's transform, width
  and height come from \<^verbatim>\<open>calculate_default_transform\<close> at the fixed resolution; the
  destination is the source's metadata with driver, CRS, transform, width and height
  replaced; every band \<^verbatim>\<open>1 .. src.count\<close> is reprojected with nearest-neighbour
  resampling. The only file written is \<^verbatim>\<open>intermediate_tif\<close>.
\<close>

definition reproject_viirs ::
  "geolib \<Rightarrow> string \<Rightarrow> string \<Rightarrow> string \<Rightarrow> string \<Rightarrow> filesystem
     \<Rightarrow> (error + unit) \<times> filesystem" where
  "reproject_viirs lib date name src_path dst_crs fs =
     (case rio_open fs src_path of
        Inl e \<Rightarrow> (Inl e, fs)
      | Inr src \<Rightarrow>
          (let (left, bottom, right, top) = bounds src;
               (transform', width', height') =
                  calculate_default_transform lib (crs src) dst_crs (width src) (height src)
                    left bottom right top resolution;
               kwargs = src \<lparr> driver := ''GTiff'', crs := dst_crs, transform := transform',
                              width := width', height := height' \<rparr>;
               dst = kwargs \<lparr> bands :=
                       map (\<lambda>i. reproject lib (src, i) (kwargs, i) (transform src) (crs src)
                                  transform' dst_crs Nearest)
                           [1 ..< count src + 1] \<rparr>
           in (Inr (), AList.update (intermediate_tif date name) (Raster dst) fs)))"

subsection \<open>\<^verbatim>\<open>create_viirs_mosaic\<close>\<close>

text \<open>Lines 143 to 146 and 174: the paths computed from \<^verbatim>\<open>pth\<close>.\<close>

definition int_pth :: "string \<Rightarrow> string" where
  "int_pth pth =
     (let date = basename pth
      in os_path_join ''data'' [''intermediate_tif'', ''viirs'', date, ''final.tif''])"

definition out_pth :: "string \<Rightarrow> string" where
  "out_pth pth =
     (let date = basename pth; year = hd (split date ''.'')
      in os_path_join ''/home/jovyan/geoanalytics_user_shared_data''
           [''modis-terra'', ''mosaics'', ''viirs'', year])"

definition fin_pth :: "string \<Rightarrow> string" where
  "fin_pth pth = (let date = basename pth in path_join (out_pth pth) (date @ ''.tif''))"

text \<open>The bounding box of line 160: west, south, east, north.\<close>

definition mosaic_bounds :: "real \<times> real \<times> real \<times> real" where
  "mosaic_bounds = (- 140.977, 46.559, - 112.3242, 63.134)"

text \<open>Lines 153 to 156: every path is opened in turn; the first that fails raises.\<close>

fun open_all :: "filesystem \<Rightarrow> string list \<Rightarrow> error + raster list" where
  "open_all fs [] = Inr []"
| "open_all fs (f # fs_paths) =
     bind_err (rio_open fs f) (\<lambda>src. bind_err (open_all fs fs_paths) (\<lambda>srcs. Inr (src # srcs)))"

text \<open>
  Lines 157 to 171: with at least one source, the merge is written to \<^verbatim>\<open>int_pth\<close> under
  the metadata of \<^verbatim>\<open>src\<close>, the file opened last, with driver, height, width and
  transform replaced. Nothing else is written: \<^verbatim>\<open>fin_pth\<close> is computed at line 174 and
  not used.
\<close>

definition create_viirs_mosaic ::
  "geolib \<Rightarrow> string \<Rightarrow> filesystem \<Rightarrow> (error + unit) \<times> filesystem" where
  "create_viirs_mosaic lib pth fs =
     (let src_files_path = glob_star fs pth ''_out.tif''
      in case open_all fs src_files_path of
           Inl e \<Rightarrow> (Inl e, fs)
         | Inr src_files_to_mosaic \<Rightarrow>
             (if length src_files_to_mosaic \<noteq> 0
              then (let (mosaic, out_trans) = merge lib src_files_to_mosaic mosaic_bounds resolution;
                        src = last src_files_to_mosaic;
                        out_meta = src \<lparr> driver := ''GTiff'', height := shape1 mosaic,
                                         width := shape2 mosaic, transform := out_trans \<rparr>
                    in (Inr (), AList.update (int_pth pth)
                                  (Raster (out_meta \<lparr> bands := cells mosaic \<rparr>)) fs))
              else (Inr (), fs)))"

subsection \<open>\<^verbatim>\<open>distribute\<close> and \<^verbatim>\<open>process_viirs\<close>\<close>

text \<open>
  \<^verbatim>\<open>Pool(6).starmap(func, args)\<close>: every unit of the batch is run (each unit is a task
  of its own, as it is for batches of up to 24 units), and an exception raised by a unit
  is raised again by \<^verbatim>\<open>starmap\<close> in the caller once the batch is done. There is no
  handler in \<^verbatim>\<open>distribute\<close>. The interleaving of the worker processes is not modelled:
  the units take effect one after another in batch order, and of several exceptions the
  one of the earliest unit is the one raised.
\<close>

fun distribute ::
  "('a \<Rightarrow> filesystem \<Rightarrow> (error + unit) \<times> filesystem) \<Rightarrow> 'a list \<Rightarrow> filesystem
     \<Rightarrow> (error + unit) \<times> filesystem" where
  "distribute func [] fs = (Inr (), fs)"
| "distribute func (a # args) fs =
     (case func a fs of
        (r, fs1) \<Rightarrow>
          (case distribute func args fs1 of
             (rs, fs2) \<Rightarrow> ((case r of Inl e \<Rightarrow> Inl e | Inr u \<Rightarrow> rs), fs2)))"

text \<open>Line 209: \<^verbatim>\<open>intermediate_pth\<close>; line 214: the directory of the date's granules.\<close>

definition intermediate_pth :: "string \<Rightarrow> string" where
  "intermediate_pth date = os_path_join ''data'' [''intermediate_tif'', ''viirs'', date]"

definition granule_dir :: "string \<Rightarrow> string" where
  "granule_dir date =
     os_path_join ''/home/jovyan/geoanalytics_user_shared_data''
       [''modis-terra'', ''VNP10A1F.001'', date]"

text \<open>Lines 217 to 219 and 225 to 228: the two batches.\<close>

definition proc_inputs :: "string \<Rightarrow> filesystem \<Rightarrow> (string \<times> string) list" where
  "proc_inputs date fs = map (\<lambda>g. (date, g)) (glob_star fs (granule_dir date) ''.h5'')"

definition reproj_args ::
  "string \<Rightarrow> filesystem \<Rightarrow> (string \<times> string \<times> string \<times> string) list" where
  "reproj_args date fs =
     map (\<lambda>tif. (date, stem tif, tif, ''EPSG:4326''))
         (glob_star fs (intermediate_pth date) ''.tif'')"

text \<open>
  The three stages in order. An exception of a stage leaves the function at once: the
  later stages are not run.
\<close>

definition process_viirs :: "geolib \<Rightarrow> string \<Rightarrow> filesystem \<Rightarrow> (error + unit) \<times> filesystem" where
  "process_viirs lib date fs =
     (case distribute (\<lambda>(date, scene). build_viirs_tif lib date scene) (proc_inputs date fs) fs of
        (Inl e, fs1) \<Rightarrow> (Inl e, fs1)
      | (Inr u, fs1) \<Rightarrow>
          (case distribute (\<lambda>(date, name, src, dst_crs). reproject_viirs lib date name src dst_crs)
                  (reproj_args date fs1) fs1 of
             (Inl e, fs2) \<Rightarrow> (Inl e, fs2)
           | (Inr u, fs2) \<Rightarrow> create_viirs_mosaic lib (intermediate_pth date) fs2))"

subsection \<open>Example inputs\<close>

text \<open>
  A library instance for the examples. \<open>ex_float\<close> gives the four decimal literals of
  the example metadata the numbers they denote, as \<^verbatim>\<open>float\<close> does; the examples apply it
  to no other text. The other functions are stand-ins: no array is converted to a float;
  the proposed destination grid has pixels of 0.004 degrees from (-124.46, 50) and the
  source's width and height; a reprojection copies the band; the merged pixels are one
  cell that holds the number of sources.
\<close>

definition ex_float :: "string \<Rightarrow> real option" where
  "ex_float s =
     (if s = ''-8895604.157333'' then Some (- 8895604.157333)
      else if s = ''5559752.598333'' then Some 5559752.598333
      else if s = ''-7783653.637667'' then Some (- 7783653.637667)
      else if s = ''4447802.078667'' then Some 4447802.078667
      else None)"

definition ex_lib :: geolib where
  "ex_lib =
     \<lparr> py_float = ex_float,
       np_float = (\<lambda>v. None),
       suggested_warp_output =
         (\<lambda>src_crs dst_crs w h b_left b_bottom b_right b_top.
            ((- 124.46, 0.004, 0, 50, 0, - 0.004), w, h)),
       reproject = (\<lambda>(src, i) (dst, j) src_transform src_crs dst_transform dst_crs r.
                      bands src ! (i - 1)),
       merge_cells = (\<lambda>srcs output_transform output_height output_width.
                        [[[int (length srcs)]]]) \<rparr>"

definition ex_blob :: string where
  "ex_blob = ''GROUP=GridStructure XDim=3000 UpperLeftPointMtrs=(-8895604.157333,5559752.598333) LowerRightMtrs=(-7783653.637667,4447802.078667) END''"

definition ex_md :: "string list" where
  "ex_md =
     [''GROUP=GridStructure'', ''XDim=3000'',
      ''UpperLeftPointMtrs=(-8895604.157333,5559752.598333)'',
      ''LowerRightMtrs=(-7783653.637667,4447802.078667)'', ''END'']"

text \<open>
  A snow-cover dataset with a fill value in a one-element array, one of the vintage
  without it, one that stores it as a scalar, and one that stores it in a 2 by 2 array.
\<close>

definition ex_snow :: dataset where
  "ex_snow =
     \<lparr> attrs = [''_FillValue'' \<mapsto> Array [Scalar (IntV 250)]], rows = [[1, 2], [3, 4]] \<rparr>"

definition ex_snow_2018 :: dataset where
  "ex_snow_2018 = \<lparr> attrs = Map.empty, rows = [[1, 2], [3, 4]] \<rparr>"

definition ex_snow_scalar :: dataset where
  "ex_snow_scalar =
     \<lparr> attrs = [''_FillValue'' \<mapsto> Scalar (IntV 250)], rows = [[1, 2], [3, 4]] \<rparr>"

definition ex_snow_2d :: dataset where
  "ex_snow_2d =
     \<lparr> attrs = [''_FillValue'' \<mapsto>
                 Array [Array [Scalar (IntV 250), Scalar (IntV 251)],
                        Array [Scalar (IntV 252), Scalar (IntV 253)]]],
       rows = [[1, 2], [3, 4]] \<rparr>"

definition ex_granule :: "dataset \<Rightarrow> granule" where
  "ex_granule snow =
     \<lparr> struct_metadata = Some ex_blob, grids = Some [''VIIRS_Grid_IMG_2D''],
       objects =
         [(''HDFEOS'', Group),
          (''HDFEOS/GRIDS/VIIRS_Grid_IMG_2D/Data Fields/CGF_NDSI_Snow_Cover'', Dataset snow)] \<rparr>"

definition ex_date :: string where
  "ex_date = ''2020.01.01''"

definition ex_scene :: string where
  "ex_scene =
     ''/home/jovyan/geoanalytics_user_shared_data/modis-terra/VNP10A1F.001/2020.01.01/g.h5''"

definition ex_fs :: "dataset \<Rightarrow> filesystem" where
  "ex_fs snow = [(ex_scene, Granule (ex_granule snow))]"

definition ex_tif :: raster where
  "ex_tif =
     \<lparr> driver = ''GTiff'', width = 2, height = 2, count = 1, nodata = Some 250, crs = prj,
       transform = (- 8895604.157333, 375, 0, 5559752.598333, 0, - 375),
       bands = [[[1, 2], [3, 4]]] \<rparr>"

text \<open>The file system after the example granule has been converted.\<close>

definition ex_fs_converted :: filesystem where
  "ex_fs_converted = ex_fs ex_snow @ [(''data/intermediate_tif/viirs/2020.01.01/g.tif'', Raster ex_tif)]"

text \<open>
  Two granules that cannot be converted: one whose metadata has no token with
  \<^verbatim>\<open>UpperLeftPointMtrs\<close>, one without the snow-cover dataset; and a date directory that
  holds a good granule and the first of these.
\<close>

definition ex_granule_no_marker :: granule where
  "ex_granule_no_marker =
     (ex_granule ex_snow) \<lparr> struct_metadata := Some ''GROUP=GridStructure XDim=3000 END'' \<rparr>"

definition ex_granule_no_snow :: granule where
  "ex_granule_no_snow = (ex_granule ex_snow) \<lparr> objects := [(''HDFEOS'', Group)] \<rparr>"

definition ex_scene_bad :: string where
  "ex_scene_bad =
     ''/home/jovyan/geoanalytics_user_shared_data/modis-terra/VNP10A1F.001/2020.01.01/h.h5''"

definition ex_fs_bad :: filesystem where
  "ex_fs_bad = [(ex_scene, Granule (ex_granule ex_snow)), (ex_scene_bad, Granule ex_granule_no_marker)]"

text \<open>A granule whose metadata describes two grids, each with its own corner.\<close>

definition ex_granule_two_grids :: granule where
  "ex_granule_two_grids =
     (ex_granule ex_snow) \<lparr> struct_metadata := Some
        ''GROUP=GRID_1 UpperLeftPointMtrs=(-8895604.157333,5559752.598333) GROUP=GRID_2 UpperLeftPointMtrs=(-7783653.637667,4447802.078667)'' \<rparr>"

text \<open>
  The example raster reprojected by \<open>ex_lib\<close>, the file system after the Reproject stage,
  and the mosaic \<open>ex_lib\<close> merges from it.
\<close>

definition ex_out :: raster where
  "ex_out =
     ex_tif \<lparr> crs := ''EPSG:4326'',
              transform := (- 124.46, 0.006659501656959246, 0,
                            50, 0, - 0.006659501656959246) \<rparr>"

definition ex_fs_reprojected :: filesystem where
  "ex_fs_reprojected =
     ex_fs_converted @ [(''data/intermediate_tif/viirs/2020.01.01/g_out.tif'', Raster ex_out)]"

definition ex_final :: raster where
  "ex_final =
     ex_out \<lparr> height := 2489, width := 4303,
              transform := (- 140.977, 0.006659501656959246, 0,
                            63.134, 0, - 0.006659501656959246),
              bands := [[[1]]] \<rparr>"

text \<open>The file system after the Mosaic stage.\<close>

definition ex_fs_done :: filesystem where
  "ex_fs_done =
     ex_fs_reprojected @ [(''data/intermediate_tif/viirs/2020.01.01/final.tif'', Raster ex_final)]"

text \<open>
  A date directory with two reprojected rasters, which differ in their no-data value.
\<close>

definition ex_out_h :: raster where
  "ex_out_h = ex_out \<lparr> nodata := Some 255 \<rparr>"

definition ex_fs_two_out :: filesystem where
  "ex_fs_two_out =
     [(''data/intermediate_tif/viirs/2020.01.01/g_out.tif'', Raster ex_out),
      (''data/intermediate_tif/viirs/2020.01.01/h_out.tif'', Raster ex_out_h)]"

text \<open>A raster that lies where \<^verbatim>\<open>reproject_viirs\<close> writes the output for the name \<^verbatim>\<open>g\<close>.\<close>

definition ex_fs_self :: filesystem where
  "ex_fs_self = [(''data/intermediate_tif/viirs/2020.01.01/g_out.tif'', Raster ex_tif)]"

text \<open>
  The file system after a second run on the example date: the mosaic of the first run
  reprojected by \<open>ex_lib\<close>, the reprojected raster reprojected again, and the mosaic
  \<open>ex_lib\<close> merges from three sources.
\<close>

definition ex_final_out :: raster where
  "ex_final_out =
     ex_final \<lparr> transform := (- 124.46, 0.006659501656959246, 0, 50, 0, - 0.006659501656959246),
                width := 2585, height := 1496 \<rparr>"


text \<open>The mosaic \<open>ex_lib\<close> merges from the two reprojected rasters of \<open>ex_fs_two_out\<close>.\<close>

definition ex_final_two :: raster where
  "ex_final_two = ex_final \<lparr> nodata := Some 255, bands := [[[2]]] \<rparr>"


section \<open>Properties\<close>

subsection \<open>Basic facts\<close>

lemmas string_defs =
  startswith_def endswith_def remove_char_def isspace_def split_ws_def decode_utf8_def
  cont_byte_def path_join_def os_path_join_def basename_def stem_def

lemma bind_err_Inr:
  "bind_err m f = Inr y \<longleftrightarrow> (\<exists>x. m = Inr x \<and> f x = Inr y)"
  by (cases m) (simp_all add: bind_err_def)

lemma map_of_update_same: "map_of (AList.update k v al) k = Some v"
  by (simp add: update_conv')

lemma map_of_update_other: "p \<noteq> k \<Longrightarrow> map_of (AList.update k v al) p = map_of al p"
  by (simp add: update_conv')

text \<open>A successful conversion has opened and read the granule and written its raster.\<close>

lemma build_viirs_tif_ok:
  assumes "build_viirs_tif lib date scene fs = (Inr (), fs')"
  shows "\<exists>f fill snow_rows geoInfo nRow nCol v.
           h5py_File fs scene = Inr f \<and>
           read_granule lib f = Inr (fill, snow_rows, geoInfo, nRow, nCol) \<and>
           float_value lib fill = Inr v \<and>
           fs' = AList.update (dest date scene)
                   (Raster ((created snow_rows nRow nCol)
                              \<lparr> nodata := Some v, transform := geoInfo, crs := prj \<rparr>)) fs"
  using assms by (auto simp: build_viirs_tif_def Let_def split: sum.splits prod.splits)

lemma read_granule_ok:
  assumes "read_granule lib f = Inr (fill, snow_rows, geoInfo, nRow, nCol)"
  shows "\<exists>md snow ulcLon ulcLat.
           fileMetadata f = Inr md \<and> snow_dataset f = Inr snow \<and>
           upper_left lib md = Inr (ulcLon, ulcLat) \<and>
           fill = fillValue snow \<and> snow_rows = rows snow \<and>
           geoInfo = (ulcLon, 375, 0, ulcLat, 0, - 375)"
  using assms
  by (auto simp: read_granule_def bind_err_Inr Let_def split: prod.splits)

text \<open>What \<^verbatim>\<open>snow.attrs['_FillValue'][0]\<close> gives, case by case.\<close>

lemma fillValue_cases:
  "attrs snow ''_FillValue'' = None \<Longrightarrow> fillValue snow = Scalar (IntV 255)"
  "attrs snow ''_FillValue'' = Some (Scalar n) \<Longrightarrow> fillValue snow = Scalar (IntV 255)"
  "attrs snow ''_FillValue'' = Some (Array []) \<Longrightarrow> fillValue snow = Scalar (IntV 255)"
  "attrs snow ''_FillValue'' = Some (Array (v # vs)) \<Longrightarrow> fillValue snow = v"
  by (simp_all add: fillValue_def read_FillValue_def bind_err_def)

lemma float_value_255: "float_value lib (Scalar (IntV 255)) = Inr 255"
  by (simp add: float_value_def)

text \<open>The example granule, evaluated.\<close>

lemma ex_snow_dataset: "snow_dataset (ex_granule snow) = Inr snow"
  by (simp add: snow_dataset_def all_datasets_def getitem_def is_dataset_def ex_granule_def
      bind_err_def string_defs)

lemma ex_fileMetadata: "fileMetadata (ex_granule snow) = Inr ex_md"
  by (simp add: fileMetadata_def ex_granule_def ex_blob_def ex_md_def bind_err_def string_defs)

lemma ex_upper_left: "upper_left ex_lib ex_md = Inr (- 8895604.157333, 5559752.598333)"
  by (simp add: ex_md_def upper_left_def ulc_fields_def float_of_def ex_lib_def ex_float_def
      bind_err_def string_defs)

lemma ex_lrc:
  "index0 [i \<leftarrow> ex_md. contains i ''LowerRightMtrs''] =
     Inr ''LowerRightMtrs=(-7783653.637667,4447802.078667)''"
  by (simp add: ex_md_def string_defs)

lemma ex_read_granule:
  "rows snow = [[1, 2], [3, 4]] \<Longrightarrow>
   read_granule ex_lib (ex_granule snow) =
     Inr (fillValue snow, [[1, 2], [3, 4]],
          (- 8895604.157333, 375, 0, 5559752.598333, 0, - 375), 2, 2)"
  by (simp add: read_granule_def ex_snow_dataset ex_fileMetadata ex_upper_left ex_lrc
      bind_err_def Let_def)

lemma ex_h5py_File: "h5py_File (ex_fs snow) ex_scene = Inr (ex_granule snow)"
  by (simp add: h5py_File_def ex_fs_def)

lemma ex_dest: "dest ex_date ex_scene = ''data/intermediate_tif/viirs/2020.01.01/g.tif''"
  by (simp add: dest_def ex_date_def ex_scene_def string_defs)

lemma ex_update_dest:
  "AList.update (dest ex_date ex_scene) c (ex_fs snow) = ex_fs snow @ [(dest ex_date ex_scene, c)]"
  unfolding ex_dest by (simp add: ex_fs_def ex_scene_def)

lemma ex_fillValue:
  "fillValue ex_snow = Scalar (IntV 250)"
  "fillValue ex_snow_2018 = Scalar (IntV 255)"
  "fillValue ex_snow_scalar = Scalar (IntV 255)"
  "fillValue ex_snow_2d = Array [Scalar (IntV 250), Scalar (IntV 251)]"
  by (simp_all add: fillValue_def read_FillValue_def bind_err_def ex_snow_def ex_snow_2018_def
      ex_snow_scalar_def ex_snow_2d_def)

lemma ex_rows:
  "rows ex_snow = [[1, 2], [3, 4]]" "rows ex_snow_2018 = [[1, 2], [3, 4]]"
  "rows ex_snow_scalar = [[1, 2], [3, 4]]" "rows ex_snow_2d = [[1, 2], [3, 4]]"
  by (simp_all add: ex_snow_def ex_snow_2018_def ex_snow_scalar_def ex_snow_2d_def)

lemma ex_build_snow:
  "build_viirs_tif ex_lib ex_date ex_scene (ex_fs ex_snow) =
     (Inr (), ex_fs ex_snow @ [(dest ex_date ex_scene, Raster ex_tif)])"
  by (simp add: build_viirs_tif_def ex_h5py_File ex_read_granule [OF ex_rows(1)] ex_fillValue
      float_value_def ex_update_dest created_def ex_tif_def)

lemma ex_build_snow_2018:
  "build_viirs_tif ex_lib ex_date ex_scene (ex_fs ex_snow_2018) =
     (Inr (), ex_fs ex_snow_2018 @ [(dest ex_date ex_scene, Raster (ex_tif \<lparr> nodata := Some 255 \<rparr>))])"
  by (simp add: build_viirs_tif_def ex_h5py_File ex_read_granule [OF ex_rows(2)] ex_fillValue
      float_value_def ex_update_dest created_def ex_tif_def)

lemma ex_build_snow_scalar:
  "build_viirs_tif ex_lib ex_date ex_scene (ex_fs ex_snow_scalar) =
     (Inr (), ex_fs ex_snow_scalar @
        [(dest ex_date ex_scene, Raster (ex_tif \<lparr> nodata := Some 255 \<rparr>))])"
  by (simp add: build_viirs_tif_def ex_h5py_File ex_read_granule [OF ex_rows(3)] ex_fillValue
      float_value_def ex_update_dest created_def ex_tif_def)

lemma ex_float_refused:
  "float_value ex_lib (Array [Scalar (IntV 250), Scalar (IntV 251)]) = Inl TypeError"
  by (simp add: float_value_def ex_lib_def)

lemma ex_build_snow_2d:
  "build_viirs_tif ex_lib ex_date ex_scene (ex_fs ex_snow_2d) =
     (Inl TypeError, ex_fs ex_snow_2d @
        [(dest ex_date ex_scene, Raster (created [[1, 2], [3, 4]] 2 2))])"
  by (simp add: build_viirs_tif_def ex_h5py_File ex_read_granule [OF ex_rows(4)] ex_fillValue
      ex_float_refused ex_update_dest)

lemma ex_lookup:
  "map_of (ex_fs snow @ [(dest ex_date ex_scene, c)]) (dest ex_date ex_scene) = Some c"
  unfolding ex_dest by (simp add: ex_fs_def ex_scene_def)

lemma ex_written:
  "map_of (snd (build_viirs_tif ex_lib ex_date ex_scene (ex_fs ex_snow))) (dest ex_date ex_scene)
     = Some (Raster ex_tif)"
  by (simp only: ex_build_snow snd_conv ex_lookup)

lemma ex_written_2018:
  "map_of (snd (build_viirs_tif ex_lib ex_date ex_scene (ex_fs ex_snow_2018)))
     (dest ex_date ex_scene) = Some (Raster (ex_tif \<lparr> nodata := Some 255 \<rparr>))"
  by (simp only: ex_build_snow_2018 snd_conv ex_lookup)

lemma ex_written_scalar:
  "map_of (snd (build_viirs_tif ex_lib ex_date ex_scene (ex_fs ex_snow_scalar)))
     (dest ex_date ex_scene) = Some (Raster (ex_tif \<lparr> nodata := Some 255 \<rparr>))"
  by (simp only: ex_build_snow_scalar snd_conv ex_lookup)

lemma ex_glob_none: "glob_star ex_fs_converted (intermediate_pth ex_date) ''_out.tif'' = []"
  by (simp add: glob_star_def ex_fs_converted_def ex_fs_def ex_scene_def intermediate_pth_def
      ex_date_def string_defs)

subsection \<open>The no-data value\<close>

text \<open>
  Claim C2, as amended. When a granule is converted, the no-data value of the raster
  written at \<^verbatim>\<open>dest\<close> is 255 if \<^verbatim>\<open>snow.attrs['_FillValue'][0]\<close> raises, that is, if the
  snow-cover dataset has no \<^verbatim>\<open>_FillValue\<close> attribute or the attribute is a scalar or an
  empty array; otherwise it is \<^verbatim>\<open>float\<close> of the attribute's first element: the element
  itself when that is a float or an integer of magnitude up to \<open>2 ^ 53\<close>.
\<close>

theorem fill_value_policy:
  assumes "h5py_File fs scene = Inr f"
    and "snow_dataset f = Inr snow"
    and "build_viirs_tif lib date scene fs = (Inr (), fs')"
  shows "\<exists>outFile. map_of fs' (dest date scene) = Some (Raster outFile) \<and>
           (attrs snow ''_FillValue'' = None \<or>
            (\<exists>n. attrs snow ''_FillValue'' = Some (Scalar n)) \<or>
            attrs snow ''_FillValue'' = Some (Array [])
              \<longrightarrow> nodata outFile = Some 255) \<and>
           (\<forall>v vs. attrs snow ''_FillValue'' = Some (Array (v # vs))
              \<longrightarrow> (\<exists>x. float_value lib v = Inr x \<and> nodata outFile = Some x)) \<and>
           (\<forall>i vs. attrs snow ''_FillValue'' = Some (Array (Scalar (IntV i) # vs)) \<and> \<bar>i\<bar> \<le> 2 ^ 53
              \<longrightarrow> nodata outFile = Some (real_of_int i)) \<and>
           (\<forall>x vs. attrs snow ''_FillValue'' = Some (Array (Scalar (FloatV x) # vs))
              \<longrightarrow> nodata outFile = Some x)"
proof -
  from build_viirs_tif_ok [OF assms(3)] assms(1)
  obtain fill snow_rows geoInfo nRow nCol x where
    r: "read_granule lib f = Inr (fill, snow_rows, geoInfo, nRow, nCol)" and
    x: "float_value lib fill = Inr x" and
    w: "fs' = AList.update (dest date scene)
              (Raster ((created snow_rows nRow nCol)
                         \<lparr> nodata := Some x, transform := geoInfo, crs := prj \<rparr>)) fs"
    by auto
  let ?outFile = "(created snow_rows nRow nCol)
                    \<lparr> nodata := Some x, transform := geoInfo, crs := prj \<rparr>"
  from read_granule_ok [OF r] assms(2) have fill: "fill = fillValue snow"
    by auto
  have written: "map_of fs' (dest date scene) = Some (Raster ?outFile)"
    by (simp add: w map_of_update_same)
  have n: "nodata ?outFile = Some x"
    by simp
  have default: "attrs snow ''_FillValue'' = None \<or>
      (\<exists>n. attrs snow ''_FillValue'' = Some (Scalar n)) \<or>
      attrs snow ''_FillValue'' = Some (Array []) \<longrightarrow> nodata ?outFile = Some 255"
    using x fill by (auto simp: fillValue_cases float_value_255)
  have present: "\<forall>v vs. attrs snow ''_FillValue'' = Some (Array (v # vs))
      \<longrightarrow> (\<exists>y. float_value lib v = Inr y \<and> nodata ?outFile = Some y)"
    using x fill by (auto simp: fillValue_cases)
  have exact_int: "\<forall>i vs. attrs snow ''_FillValue'' = Some (Array (Scalar (IntV i) # vs)) \<and>
      \<bar>i\<bar> \<le> 2 ^ 53 \<longrightarrow> nodata ?outFile = Some (real_of_int i)"
    using x fill by (auto simp: fillValue_cases float_value_def)
  have exact_float: "\<forall>y vs. attrs snow ''_FillValue'' = Some (Array (Scalar (FloatV y) # vs))
      \<longrightarrow> nodata ?outFile = Some y"
    using x fill by (auto simp: fillValue_cases float_value_def)
  from written default present exact_int exact_float show ?thesis
    by blast
qed

text \<open>
  On the example granule: with \<^verbatim>\<open>_FillValue = [250]\<close> the no-data value is 250, and
  without the attribute, or with the attribute a scalar, it is 255.
\<close>

theorem fill_value_policy_witness:
  "attrs ex_snow ''_FillValue'' = Some (Array [Scalar (IntV 250)]) \<and>
   map_of (snd (build_viirs_tif ex_lib ex_date ex_scene (ex_fs ex_snow))) (dest ex_date ex_scene)
     = Some (Raster ex_tif) \<and>
   nodata ex_tif = Some 250 \<and>
   attrs ex_snow_2018 ''_FillValue'' = None \<and>
   map_of (snd (build_viirs_tif ex_lib ex_date ex_scene (ex_fs ex_snow_2018)))
     (dest ex_date ex_scene) = Some (Raster (ex_tif \<lparr> nodata := Some 255 \<rparr>)) \<and>
   attrs ex_snow_scalar ''_FillValue'' = Some (Scalar (IntV 250)) \<and>
   map_of (snd (build_viirs_tif ex_lib ex_date ex_scene (ex_fs ex_snow_scalar)))
     (dest ex_date ex_scene) = Some (Raster (ex_tif \<lparr> nodata := Some 255 \<rparr>)) \<and>
   nodata (ex_tif \<lparr> nodata := Some 255 \<rparr>) = Some 255"
proof -
  have a: "attrs ex_snow ''_FillValue'' = Some (Array (Scalar (IntV 250) # []))"
    and b: "attrs ex_snow_2018 ''_FillValue'' = None"
    and c: "attrs ex_snow_scalar ''_FillValue'' = Some (Scalar (IntV 250))"
    by (simp_all add: ex_snow_def ex_snow_2018_def ex_snow_scalar_def)
  from fill_value_policy [OF ex_h5py_File ex_snow_dataset ex_build_snow] a
  have "nodata ex_tif = Some 250"
    by (simp only: ex_lookup) auto
  moreover
  from fill_value_policy [OF ex_h5py_File ex_snow_dataset ex_build_snow_2018] b
  have "nodata (ex_tif \<lparr> nodata := Some 255 \<rparr>) = Some 255"
    by (simp only: ex_lookup) auto
  moreover
  from fill_value_policy [OF ex_h5py_File ex_snow_dataset ex_build_snow_scalar] c
  have "nodata (ex_tif \<lparr> nodata := Some 255 \<rparr>) = Some 255"
    by (simp only: ex_lookup) auto
  ultimately show ?thesis
    using a b c ex_written ex_written_2018 ex_written_scalar by simp
qed

text \<open>
  Claim C2 as stated fails for an attribute that is present and readable but is not an
  array. The example dataset stores \<^verbatim>\<open>_FillValue\<close> as the scalar 250: the conversion
  succeeds, and the no-data value written is 255, not 250.
\<close>

theorem fill_value_scalar_counterexample:
  "attrs ex_snow_scalar ''_FillValue'' = Some (Scalar (IntV 250)) \<and>
   build_viirs_tif ex_lib ex_date ex_scene (ex_fs ex_snow_scalar) =
     (Inr (), ex_fs ex_snow_scalar @
        [(dest ex_date ex_scene, Raster (ex_tif \<lparr> nodata := Some 255 \<rparr>))]) \<and>
   nodata (ex_tif \<lparr> nodata := Some 255 \<rparr>) \<noteq> Some 250"
  by (simp add: ex_build_snow_scalar) (simp add: ex_snow_scalar_def)

text \<open>
  When \<^verbatim>\<open>float\<close> refuses the element (here a row of a 2 by 2 attribute), line 90 raises
  after the raster has been created: the file is there, without no-data value,
  geotransform or projection.
\<close>

lemma float_refused_after_create:
  "build_viirs_tif ex_lib ex_date ex_scene (ex_fs ex_snow_2d) =
     (Inl TypeError, ex_fs ex_snow_2d @
        [(dest ex_date ex_scene, Raster (created [[1, 2], [3, 4]] 2 2))]) \<and>
   nodata (created [[1, 2], [3, 4]] 2 2) = None"
  by (simp add: ex_build_snow_2d) (simp add: created_def)

subsection \<open>The geotransform\<close>

text \<open>
  Claim C3. After a successful run of \<^verbatim>\<open>build_viirs_tif\<close> the raster at \<^verbatim>\<open>dest\<close> has the
  geotransform (ulcLon, 375, 0, ulcLat, 0, -375), where (ulcLon, ulcLat) is the upper-left
  corner parsed from the granule's metadata.
\<close>

theorem geotransform_written:
  assumes "h5py_File fs scene = Inr f"
    and "fileMetadata f = Inr md"
    and "upper_left lib md = Inr (ulcLon, ulcLat)"
    and "build_viirs_tif lib date scene fs = (Inr (), fs')"
  shows "\<exists>outFile. map_of fs' (dest date scene) = Some (Raster outFile) \<and>
           transform outFile = (ulcLon, 375, 0, ulcLat, 0, - 375)"
proof -
  from build_viirs_tif_ok [OF assms(4)] assms(1)
  obtain fill snow_rows geoInfo nRow nCol x where
    r: "read_granule lib f = Inr (fill, snow_rows, geoInfo, nRow, nCol)" and
    w: "fs' = AList.update (dest date scene)
              (Raster ((created snow_rows nRow nCol)
                         \<lparr> nodata := Some x, transform := geoInfo, crs := prj \<rparr>)) fs"
    by auto
  from read_granule_ok [OF r] assms(2,3) have
    "geoInfo = (ulcLon, 375, 0, ulcLat, 0, - 375)"
    by auto
  then show ?thesis
    by (simp add: w map_of_update_same)
qed

text \<open>The example granule: its corner is the origin of the raster written.\<close>

theorem geotransform_written_witness:
  "upper_left ex_lib ex_md = Inr (- 8895604.157333, 5559752.598333) \<and>
   map_of (snd (build_viirs_tif ex_lib ex_date ex_scene (ex_fs ex_snow))) (dest ex_date ex_scene)
     = Some (Raster ex_tif) \<and>
   transform ex_tif = (- 8895604.157333, 375, 0, 5559752.598333, 0, - 375)"
proof -
  from geotransform_written [OF ex_h5py_File ex_fileMetadata ex_upper_left ex_build_snow]
  have "transform ex_tif = (- 8895604.157333, 375, 0, 5559752.598333, 0, - 375)"
    by (simp only: ex_lookup) auto
  then show ?thesis
    using ex_upper_left ex_written by blast
qed

subsection \<open>The mosaic of a date\<close>

text \<open>
  Claim C4. When no file directly in \<^verbatim>\<open>pth\<close> matches \<^verbatim>\<open>*_out.tif\<close>,
  \<^verbatim>\<open>create_viirs_mosaic\<close> returns normally and leaves the file system as it was: no
  mosaic is written and nothing is raised.
\<close>

theorem empty_date_no_mosaic:
  assumes "glob_star fs pth ''_out.tif'' = []"
  shows "create_viirs_mosaic lib pth fs = (Inr (), fs)"
  using assms by (simp add: create_viirs_mosaic_def)

text \<open>The example date after conversion and before reprojection has no such file.\<close>

theorem empty_date_no_mosaic_witness:
  "glob_star ex_fs_converted (intermediate_pth ex_date) ''_out.tif'' = [] \<and>
   create_viirs_mosaic ex_lib (intermediate_pth ex_date) ex_fs_converted = (Inr (), ex_fs_converted)"
  using empty_date_no_mosaic [OF ex_glob_none, of ex_lib] ex_glob_none by simp


subsection \<open>Failed conversions\<close>

text \<open>Paths: what \<^verbatim>\<open>build_viirs_tif\<close> writes ends in \<^verbatim>\<open>.tif\<close>, what it reads in \<^verbatim>\<open>.h5\<close>.\<close>

lemma endswith_iff: "endswith s p \<longleftrightarrow> (\<exists>u. s = u @ p)"
proof
  assume "endswith s p"
  then have "s = take (length s - length p) s @ p"
    by (simp add: endswith_def) (metis append_take_drop_id)
  then show "\<exists>u. s = u @ p" ..
next
  assume "\<exists>u. s = u @ p"
  then show "endswith s p"
    by (auto simp: endswith_def)
qed

lemma path_join_suffix: "\<exists>u. path_join a b = u @ b"
  by (auto simp: path_join_def intro: exI [of _ "[]"])

lemma basename_suffix: "\<exists>u. p = u @ basename p"
proof -
  have "rev p = takeWhile (\<lambda>c. c \<noteq> CHR ''/'') (rev p) @ dropWhile (\<lambda>c. c \<noteq> CHR ''/'') (rev p)"
    by simp
  then have "p = rev (dropWhile (\<lambda>c. c \<noteq> CHR ''/'') (rev p)) @ basename p"
    unfolding basename_def by (metis rev_append rev_rev_ident)
  then show ?thesis ..
qed

lemma dest_endswith: "endswith (dest date scene) ''.tif''"
proof -
  obtain u where "dest date scene = u @ (stem scene @ ''.tif'')"
    using path_join_suffix [of "path_join ''data/intermediate_tif/viirs'' date" "stem scene @ ''.tif''"]
    by (auto simp: dest_def os_path_join_def)
  then have "dest date scene = (u @ stem scene) @ ''.tif''" by simp
  then show ?thesis unfolding endswith_iff ..
qed

lemma glob_star_endswith:
  assumes "p \<in> set (glob_star fs dir suffix)"
  shows "endswith p suffix"
proof -
  from assms have "endswith (basename p) suffix"
    by (auto simp: glob_star_def)
  then obtain u where u: "basename p = u @ suffix"
    unfolding endswith_iff ..
  obtain v where "p = v @ basename p"
    using basename_suffix ..
  with u have "p = (v @ u) @ suffix" by simp
  then show ?thesis unfolding endswith_iff ..
qed

lemma h5_not_tif: "endswith p ''.h5'' \<Longrightarrow> \<not> endswith p ''.tif''"
  by (auto simp: endswith_iff)

text \<open>\<^verbatim>\<open>build_viirs_tif\<close> writes at \<^verbatim>\<open>dest\<close> and nowhere else.\<close>

lemma build_viirs_tif_frame:
  "p \<noteq> dest date scene \<Longrightarrow>
   map_of (snd (build_viirs_tif lib date scene fs)) p = map_of fs p"
  by (auto simp: build_viirs_tif_def Let_def map_of_update_other split: sum.splits prod.splits)

lemma build_viirs_tif_Inl:
  "h5py_File fs scene = Inr f \<Longrightarrow> read_granule lib f = Inl e \<Longrightarrow>
   build_viirs_tif lib date scene fs = (Inl e, fs)"
  by (simp add: build_viirs_tif_def)

lemma read_granule_no_dataset:
  assumes "all_datasets f = Inr ds" and "[a \<leftarrow> ds. contains a ''CGF_NDSI_Snow_Cover''] = []"
  shows "\<exists>e. read_granule lib f = Inl e"
proof -
  have "snow_dataset f = Inl IndexError"
    using assms by (simp add: snow_dataset_def bind_err_def)
  then show ?thesis
    by (cases "fileMetadata f") (simp_all add: read_granule_def bind_err_def)
qed

lemma read_granule_no_marker:
  assumes "fileMetadata f = Inr md" and "[i \<leftarrow> md. contains i ''UpperLeftPointMtrs''] = []"
  shows "\<exists>e. read_granule lib f = Inl e"
proof -
  have "upper_left lib md = Inl IndexError"
    using assms(2) by (simp add: upper_left_def bind_err_def)
  then show ?thesis
    using assms(1) by (cases "snow_dataset f") (simp_all add: read_granule_def bind_err_def Let_def)
qed

text \<open>
  Claim C10. When the granule cannot be opened, or has no dataset with
  \<^verbatim>\<open>CGF_NDSI_Snow_Cover\<close> in its path, or has no metadata token with
  \<^verbatim>\<open>UpperLeftPointMtrs\<close>, \<^verbatim>\<open>build_viirs_tif\<close> raises and the file system is exactly as
  before: the raster is created only after every read and parse has succeeded, so no
  file appears at \<^verbatim>\<open>dest\<close>.
\<close>

theorem failed_conversion_writes_nothing:
  assumes "h5py_File fs scene = Inl e0 \<or>
           (h5py_File fs scene = Inr f \<and> all_datasets f = Inr ds \<and>
              [a \<leftarrow> ds. contains a ''CGF_NDSI_Snow_Cover''] = []) \<or>
           (h5py_File fs scene = Inr f \<and> fileMetadata f = Inr md \<and>
              [i \<leftarrow> md. contains i ''UpperLeftPointMtrs''] = [])"
  shows "\<exists>e. build_viirs_tif lib date scene fs = (Inl e, fs)"
  using assms
proof (elim disjE conjE)
  assume "h5py_File fs scene = Inl e0"
  then show ?thesis by (simp add: build_viirs_tif_def)
next
  assume f: "h5py_File fs scene = Inr f" and "all_datasets f = Inr ds"
    and "[a \<leftarrow> ds. contains a ''CGF_NDSI_Snow_Cover''] = []"
  then obtain e where "read_granule lib f = Inl e"
    using read_granule_no_dataset by blast
  with f show ?thesis by (auto dest: build_viirs_tif_Inl)
next
  assume f: "h5py_File fs scene = Inr f" and "fileMetadata f = Inr md"
    and "[i \<leftarrow> md. contains i ''UpperLeftPointMtrs''] = []"
  then obtain e where "read_granule lib f = Inl e"
    using read_granule_no_marker by blast
  with f show ?thesis by (auto dest: build_viirs_tif_Inl)
qed

text \<open>The two defective granules, evaluated.\<close>

lemma ex_no_marker_md:
  "fileMetadata ex_granule_no_marker = Inr [''GROUP=GridStructure'', ''XDim=3000'', ''END'']"
  by (simp add: fileMetadata_def ex_granule_no_marker_def ex_granule_def bind_err_def string_defs)

lemma ex_no_marker_filter:
  "[i \<leftarrow> [''GROUP=GridStructure'', ''XDim=3000'', ''END'']. contains i ''UpperLeftPointMtrs''] = []"
  by (simp add: string_defs)

lemma ex_no_snow_datasets: "all_datasets ex_granule_no_snow = Inr []"
  by (simp add: all_datasets_def ex_granule_no_snow_def ex_granule_def is_dataset_def)

lemma ex_no_marker_snow: "snow_dataset ex_granule_no_marker = Inr ex_snow"
  by (simp add: snow_dataset_def all_datasets_def getitem_def is_dataset_def
      ex_granule_no_marker_def ex_granule_def bind_err_def string_defs)

lemma ex_no_marker_upper_left:
  "upper_left lib [''GROUP=GridStructure'', ''XDim=3000'', ''END''] = Inl IndexError"
  by (simp only: upper_left_def ex_no_marker_filter) (simp add: bind_err_def)

lemma ex_no_marker_raster: "read_granule lib ex_granule_no_marker = Inl IndexError"
  by (simp add: read_granule_def ex_no_marker_md ex_no_marker_snow ex_no_marker_upper_left
      bind_err_def Let_def)

lemma ex_no_snow_md: "fileMetadata ex_granule_no_snow = Inr ex_md"
  by (simp add: fileMetadata_def ex_granule_no_snow_def ex_granule_def ex_blob_def ex_md_def
      bind_err_def string_defs)

lemma ex_no_snow_dataset: "snow_dataset ex_granule_no_snow = Inl IndexError"
  by (simp add: snow_dataset_def ex_no_snow_datasets bind_err_def)

lemma ex_no_snow_raster: "read_granule lib ex_granule_no_snow = Inl IndexError"
  by (simp add: read_granule_def ex_no_snow_md ex_no_snow_dataset bind_err_def)

text \<open>The three cases on the examples: a missing file and the two defective granules.\<close>

theorem failed_conversion_writes_nothing_witness:
  "h5py_File [] ex_scene = Inl OSError \<and>
   build_viirs_tif ex_lib ex_date ex_scene [] = (Inl OSError, []) \<and>
   all_datasets ex_granule_no_snow = Inr [] \<and>
   build_viirs_tif ex_lib ex_date ex_scene [(ex_scene, Granule ex_granule_no_snow)] =
     (Inl IndexError, [(ex_scene, Granule ex_granule_no_snow)]) \<and>
   fileMetadata ex_granule_no_marker = Inr [''GROUP=GridStructure'', ''XDim=3000'', ''END''] \<and>
   build_viirs_tif ex_lib ex_date ex_scene [(ex_scene, Granule ex_granule_no_marker)] =
     (Inl IndexError, [(ex_scene, Granule ex_granule_no_marker)])"
proof -
  have a: "h5py_File [] ex_scene = Inl OSError"
    by (simp add: h5py_File_def)
  have b: "h5py_File [(ex_scene, Granule ex_granule_no_snow)] ex_scene = Inr ex_granule_no_snow"
    by (simp add: h5py_File_def)
  have c: "h5py_File [(ex_scene, Granule ex_granule_no_marker)] ex_scene = Inr ex_granule_no_marker"
    by (simp add: h5py_File_def)
  have "\<exists>e. build_viirs_tif ex_lib ex_date ex_scene [] = (Inl e, [])"
    using failed_conversion_writes_nothing [of "[]" ex_scene OSError] a by blast
  then have 1: "build_viirs_tif ex_lib ex_date ex_scene [] = (Inl OSError, [])"
    by (simp add: build_viirs_tif_def a)
  have "\<exists>e. build_viirs_tif ex_lib ex_date ex_scene [(ex_scene, Granule ex_granule_no_snow)] =
     (Inl e, [(ex_scene, Granule ex_granule_no_snow)])"
    using failed_conversion_writes_nothing
      [of "[(ex_scene, Granule ex_granule_no_snow)]" ex_scene _ ex_granule_no_snow "[]"]
      b ex_no_snow_datasets by simp
  then have 2: "build_viirs_tif ex_lib ex_date ex_scene [(ex_scene, Granule ex_granule_no_snow)] =
     (Inl IndexError, [(ex_scene, Granule ex_granule_no_snow)])"
    by (simp add: build_viirs_tif_def b ex_no_snow_raster)
  have "\<exists>e. build_viirs_tif ex_lib ex_date ex_scene [(ex_scene, Granule ex_granule_no_marker)] =
     (Inl e, [(ex_scene, Granule ex_granule_no_marker)])"
    using failed_conversion_writes_nothing
      [of "[(ex_scene, Granule ex_granule_no_marker)]" ex_scene _ ex_granule_no_marker _
          "[''GROUP=GridStructure'', ''XDim=3000'', ''END'']"]
      c ex_no_marker_md ex_no_marker_filter by simp
  then have 3: "build_viirs_tif ex_lib ex_date ex_scene [(ex_scene, Granule ex_granule_no_marker)] =
     (Inl IndexError, [(ex_scene, Granule ex_granule_no_marker)])"
    by (simp add: build_viirs_tif_def c ex_no_marker_raster)
  from a 1 2 3 ex_no_snow_datasets ex_no_marker_md show ?thesis by blast
qed

subsection \<open>Propagation through the batch\<close>

text \<open>A unit that fails in every state of an invariant the units keep makes the batch fail.\<close>

lemma distribute_fails:
  assumes "a \<in> set args"
    and "\<And>s. Q s \<Longrightarrow> \<exists>e. fst (func a s) = Inl e"
    and "\<And>b s. b \<in> set args \<Longrightarrow> Q s \<Longrightarrow> Q (snd (func b s))"
    and "Q s0"
  shows "\<exists>e. fst (distribute func args s0) = Inl e"
  using assms
proof (induction args arbitrary: s0)
  case Nil
  then show ?case by simp
next
  case (Cons b args)
  obtain r s1 where b: "func b s0 = (r, s1)" by (cases "func b s0")
  obtain rs s2 where rest: "distribute func args s1 = (rs, s2)"
    by (cases "distribute func args s1")
  have Q1: "Q s1"
    using Cons.prems(3) [of b s0] Cons.prems(4) b by simp
  show ?case
  proof (cases r)
    case (Inl e)
    with b rest show ?thesis by simp
  next
    case (Inr u)
    with b Cons.prems(1,2,4) have "a \<in> set args"
      by (metis fst_conv set_ConsD sum.distinct(1))
    then have "\<exists>e. fst (distribute func args s1) = Inl e"
      using Cons.IH [of s1] Cons.prems(2,3) Q1 by simp
    with b rest Inr show ?thesis by simp
  qed
qed

text \<open>
  Claim C8. A granule of the date that opens but has no metadata token with
  \<^verbatim>\<open>UpperLeftPointMtrs\<close> (or no dataset with \<^verbatim>\<open>CGF_NDSI_Snow_Cover\<close> in its path) makes its
  conversion unit raise; \<^verbatim>\<open>distribute\<close> raises in turn, and \<^verbatim>\<open>process_viirs\<close> ends with
  that exception in the state the Convert batch left: the Reproject and Mosaic stages
  are not run.
\<close>

theorem missing_marker_aborts_convert_stage:
  assumes "scene \<in> set (glob_star fs (granule_dir date) ''.h5'')"
    and "h5py_File fs scene = Inr f"
    and "(all_datasets f = Inr ds \<and> [a \<leftarrow> ds. contains a ''CGF_NDSI_Snow_Cover''] = []) \<or>
         (fileMetadata f = Inr md \<and> [i \<leftarrow> md. contains i ''UpperLeftPointMtrs''] = [])"
  shows "(\<exists>e. fst (build_viirs_tif lib date scene fs) = Inl e) \<and>
         (\<exists>e. fst (distribute (\<lambda>(date, scene). build_viirs_tif lib date scene)
                     (proc_inputs date fs) fs) = Inl e) \<and>
         (\<exists>e. process_viirs lib date fs =
                (Inl e, snd (distribute (\<lambda>(date, scene). build_viirs_tif lib date scene)
                               (proc_inputs date fs) fs)))"
proof -
  let ?unit = "\<lambda>(date, scene). build_viirs_tif lib date scene"
  let ?Q = "\<lambda>s. map_of s scene = map_of fs scene"
  from assms(3) obtain e where raster: "read_granule lib f = Inl e"
    using read_granule_no_dataset read_granule_no_marker by blast
  have fails: "\<exists>e. fst (build_viirs_tif lib date scene s) = Inl e" if "?Q s" for s
  proof -
    from that assms(2) have "h5py_File s scene = Inr f"
      by (simp add: h5py_File_def)
    from build_viirs_tif_Inl [OF this raster] show ?thesis
      by simp
  qed
  have h5: "endswith scene ''.h5''"
    using assms(1) by (rule glob_star_endswith)
  have keeps: "?Q (snd (?unit b s))" if "b \<in> set (proc_inputs date fs)" and "?Q s" for b s
  proof -
    obtain d g where b: "b = (d, g)" by (cases b)
    have "scene \<noteq> dest d g"
      using h5 dest_endswith [of d g] h5_not_tif by auto
    then show ?thesis
      using that(2) by (simp add: b build_viirs_tif_frame)
  qed
  have member: "(date, scene) \<in> set (proc_inputs date fs)"
    using assms(1) by (simp add: proc_inputs_def)
  have "\<exists>e. fst (?unit (date, scene) s) = Inl e" if "?Q s" for s
    using fails [OF that] by simp
  from distribute_fails [of "(date, scene)" "proc_inputs date fs" ?Q ?unit fs, OF member this keeps]
  obtain e' where batch: "fst (distribute ?unit (proc_inputs date fs) fs) = Inl e'"
    by auto
  then have "process_viirs lib date fs = (Inl e', snd (distribute ?unit (proc_inputs date fs) fs))"
    by (cases "distribute ?unit (proc_inputs date fs) fs") (simp add: process_viirs_def)
  with batch fails [of fs] show ?thesis by blast
qed

text \<open>The date directory with the defective granule, evaluated.\<close>

lemma ex_granule_dir:
  "granule_dir ex_date =
     ''/home/jovyan/geoanalytics_user_shared_data/modis-terra/VNP10A1F.001/2020.01.01''"
  by (simp add: granule_dir_def ex_date_def string_defs)

lemma ex_glob_bad: "glob_star ex_fs_bad (granule_dir ex_date) ''.h5'' = [ex_scene, ex_scene_bad]"
  unfolding ex_granule_dir
  by (simp add: glob_star_def ex_fs_bad_def ex_scene_def ex_scene_bad_def string_defs)

lemma ex_bad_open: "h5py_File ex_fs_bad ex_scene_bad = Inr ex_granule_no_marker"
  by (simp add: h5py_File_def ex_fs_bad_def ex_scene_def ex_scene_bad_def)

lemma ex_bad_open_after:
  "h5py_File (ex_fs_bad @ [(dest ex_date ex_scene, c)]) ex_scene_bad = Inr ex_granule_no_marker"
  by (simp add: h5py_File_def ex_fs_bad_def ex_scene_def ex_scene_bad_def)

lemma ex_good_open: "h5py_File ex_fs_bad ex_scene = Inr (ex_granule ex_snow)"
  by (simp add: h5py_File_def ex_fs_bad_def)

lemma ex_update_bad:
  "AList.update (dest ex_date ex_scene) c ex_fs_bad = ex_fs_bad @ [(dest ex_date ex_scene, c)]"
  unfolding ex_dest by (simp add: ex_fs_bad_def ex_scene_def ex_scene_bad_def)

lemma ex_build_good:
  "build_viirs_tif ex_lib ex_date ex_scene ex_fs_bad =
     (Inr (), ex_fs_bad @ [(dest ex_date ex_scene, Raster ex_tif)])"
  by (simp add: build_viirs_tif_def ex_good_open ex_read_granule [OF ex_rows(1)] ex_fillValue
      float_value_def ex_update_bad created_def ex_tif_def)

lemma ex_build_bad_after:
  "build_viirs_tif ex_lib ex_date ex_scene_bad (ex_fs_bad @ [(dest ex_date ex_scene, c)]) =
     (Inl IndexError, ex_fs_bad @ [(dest ex_date ex_scene, c)])"
  by (simp add: build_viirs_tif_def ex_bad_open_after ex_no_marker_raster)

lemma ex_distribute_bad:
  "distribute (\<lambda>(date, scene). build_viirs_tif ex_lib date scene) (proc_inputs ex_date ex_fs_bad)
     ex_fs_bad =
   (Inl IndexError, ex_fs_bad @ [(dest ex_date ex_scene, Raster ex_tif)])"
  by (simp add: proc_inputs_def ex_glob_bad ex_build_good ex_build_bad_after)

text \<open>
  A date with a good granule and one without the marker: the good granule is converted,
  the run ends with \<^verbatim>\<open>IndexError\<close>, and neither a reprojected raster nor a mosaic exists.
\<close>

theorem missing_marker_aborts_convert_stage_witness:
  "ex_scene_bad \<in> set (glob_star ex_fs_bad (granule_dir ex_date) ''.h5'') \<and>
   h5py_File ex_fs_bad ex_scene_bad = Inr ex_granule_no_marker \<and>
   fileMetadata ex_granule_no_marker = Inr [''GROUP=GridStructure'', ''XDim=3000'', ''END''] \<and>
   fst (build_viirs_tif ex_lib ex_date ex_scene_bad ex_fs_bad) = Inl IndexError \<and>
   process_viirs ex_lib ex_date ex_fs_bad =
     (Inl IndexError, ex_fs_bad @ [(dest ex_date ex_scene, Raster ex_tif)])"
proof -
  have m: "ex_scene_bad \<in> set (glob_star ex_fs_bad (granule_dir ex_date) ''.h5'')"
    by (simp add: ex_glob_bad)
  have u: "fst (build_viirs_tif ex_lib ex_date ex_scene_bad ex_fs_bad) = Inl IndexError"
    by (simp add: build_viirs_tif_def ex_bad_open ex_no_marker_raster)
  from missing_marker_aborts_convert_stage
    [OF m ex_bad_open, of _ "[''GROUP=GridStructure'', ''XDim=3000'', ''END'']" ex_lib]
    ex_no_marker_md ex_no_marker_filter
  have "\<exists>e. process_viirs ex_lib ex_date ex_fs_bad =
            (Inl e, snd (distribute (\<lambda>(date, scene). build_viirs_tif ex_lib date scene)
                           (proc_inputs ex_date ex_fs_bad) ex_fs_bad))"
    by simp
  then have "process_viirs ex_lib ex_date ex_fs_bad =
     (Inl IndexError, ex_fs_bad @ [(dest ex_date ex_scene, Raster ex_tif)])"
    by (simp add: process_viirs_def ex_distribute_bad)
  with m u ex_bad_open ex_no_marker_md show ?thesis by blast
qed

subsection \<open>The upper-left corner\<close>

text \<open>Facts about \<^verbatim>\<open>in\<close> and \<^verbatim>\<open>split\<close>.\<close>

lemma startswith_append: "startswith (p @ s) p"
  by (simp add: startswith_def)

lemma contains_append: "contains (pre @ p @ suf) p"
proof (induction pre)
  case Nil
  show ?case
    by (cases "p @ suf") (use startswith_append [of p suf] in auto)
next
  case (Cons a pre)
  then show ?case by simp
qed

lemma startswith_set: "startswith s p \<Longrightarrow> set p \<subseteq> set s"
  unfolding startswith_def by (metis set_take_subset)

lemma contains_set: "contains s p \<Longrightarrow> set p \<subseteq> set s"
proof (induction s p rule: contains.induct)
  case (1 p)
  then show ?case by simp
next
  case (2 c cs p)
  from "2.prems" have "startswith (c # cs) p \<or> contains cs p" by simp
  then show ?case
  proof
    assume "startswith (c # cs) p"
    then show ?thesis by (rule startswith_set)
  next
    assume "contains cs p"
    then have "set p \<subseteq> set cs" by (rule "2.IH")
    then show ?thesis by auto
  qed
qed

lemma split_without_sep: "\<not> contains s sep \<Longrightarrow> split s sep = [s]"
  by (induction s sep rule: split.induct) auto

lemma split_absent_char: "c \<in> set sep \<Longrightarrow> c \<notin> set s \<Longrightarrow> split s sep = [s]"
  using contains_set [of s sep] by (auto intro: split_without_sep)

lemma split_nonempty: "split s sep \<noteq> []"
  by (induction s sep rule: split.induct) (auto split: list.splits)

text \<open>The last piece of a split at \<open>[c1, c2]\<close> is what follows the last occurrence.\<close>

lemma split_two_last:
  assumes "c1 \<noteq> c2" and "c2 \<notin> set v"
  shows "\<exists>ps. ps \<noteq> [] \<and> split (u @ [c1, c2] @ v) [c1, c2] = ps @ [v]"
proof (induction u rule: length_induct)
  case (1 u)
  have v: "split v [c1, c2] = [v]"
    using assms(2) by (simp add: split_absent_char [of c2])
  show ?case
  proof (cases u)
    case Nil
    then show ?thesis
      by (simp add: startswith_def v)
  next
    case (Cons a u')
    show ?thesis
    proof (cases "startswith (u @ [c1, c2] @ v) [c1, c2]")
      case True
      then have "a = c1" and "hd (u' @ [c1, c2] @ v) = c2"
        using Cons by (auto simp: startswith_def) (cases u'; simp)+
      with assms(1) obtain u'' where u': "u' = c2 # u''"
        by (cases u') auto
      have "length u'' < length u"
        using Cons u' by simp
      from 1 [rule_format, OF this] obtain ps where "ps \<noteq> []"
        and "split (u'' @ [c1, c2] @ v) [c1, c2] = ps @ [v]"
        by blast
      with True Cons u' have "split (u @ [c1, c2] @ v) [c1, c2] = ([] # ps) @ [v]"
        by simp
      then show ?thesis by blast
    next
      case False
      have "length u' < length u"
        using Cons by simp
      from 1 [rule_format, OF this] obtain ps where ps: "ps \<noteq> []"
        and s: "split (u' @ [c1, c2] @ v) [c1, c2] = ps @ [v]"
        by blast
      from ps obtain p ps' where "ps = p # ps'" by (cases ps) auto
      with False Cons s have "split (u @ [c1, c2] @ v) [c1, c2] = ((a # p) # ps') @ [v]"
        by simp
      then show ?thesis by blast
    qed
  qed
qed

lemma last_split_two:
  "c1 \<noteq> c2 \<Longrightarrow> c2 \<notin> set v \<Longrightarrow> last (split (u @ [c1, c2] @ v) [c1, c2]) = v"
  using split_two_last [of c1 c2 v u] by auto

lemma split_one_char:
  assumes "c \<notin> set x" and "c \<notin> set y"
  shows "split (x @ c # y) [c] = [x, y]"
  using assms(1)
proof (induction x)
  case Nil
  then show ?case
    using assms(2) by (simp add: startswith_def split_absent_char [of c])
next
  case (Cons a x)
  then show ?case
    by (auto simp: startswith_def)
qed

lemma ulc_fields_pair:
  assumes "set X \<inter> {CHR '','', CHR ''('', CHR '')''} = {}"
    and "set Y \<inter> {CHR '','', CHR ''('', CHR '')''} = {}"
  shows "ulc_fields (pre @ ''UpperLeftPointMtrs=('' @ X @ '','' @ Y @ '')'') = [X, Y]"
proof -
  let ?v = "X @ '','' @ Y @ '')''"
  have "CHR ''('' \<notin> set ?v"
    using assms by auto
  then have "last (split ((pre @ ''UpperLeftPointMtrs'') @ ''=('' @ ?v) ''=('') = ?v"
    using last_split_two [of "CHR ''=''" "CHR ''(''" ?v "pre @ ''UpperLeftPointMtrs''"] by simp
  then have "last (split (pre @ ''UpperLeftPointMtrs=('' @ X @ '','' @ Y @ '')'') ''=('') = ?v"
    by simp
  moreover have "remove_char ?v CHR '')'' = X @ '','' @ Y"
  proof -
    have "filter (\<lambda>c. c \<noteq> CHR '')'') X = X" and "filter (\<lambda>c. c \<noteq> CHR '')'') Y = Y"
      using assms by (auto intro!: filter_True)
    then show ?thesis
      by (simp add: remove_char_def)
  qed
  moreover have "split (X @ '','' @ Y) '','' = [X, Y]"
    using assms split_one_char [of "CHR '',''" X Y] by auto
  ultimately show ?thesis
    by (simp add: ulc_fields_def)
qed

text \<open>
  Claim C1, as amended. Let the first metadata token that has \<^verbatim>\<open>UpperLeftPointMtrs\<close> in it
  end with \<^verbatim>\<open>UpperLeftPointMtrs=(X,Y)\<close>, where \<open>X\<close> and \<open>Y\<close> hold no comma and no
  parenthesis and \<^verbatim>\<open>float\<close> accepts both. Then lines 73 to 75 yield exactly
  (\<^verbatim>\<open>float(X)\<close>, \<^verbatim>\<open>float(Y)\<close>), longitude from the first component and latitude from the
  second, whatever tokens without the marker come before it and whatever tokens come after.
\<close>

theorem upper_left_of_first_marker_token:
  assumes "md = before @ t # after"
    and "\<forall>i \<in> set before. \<not> contains i ''UpperLeftPointMtrs''"
    and "t = pre @ ''UpperLeftPointMtrs=('' @ X @ '','' @ Y @ '')''"
    and "set X \<inter> {CHR '','', CHR ''('', CHR '')''} = {}"
    and "set Y \<inter> {CHR '','', CHR ''('', CHR '')''} = {}"
    and "py_float lib X = Some x"
    and "py_float lib Y = Some y"
  shows "upper_left lib md = Inr (x, y)"
proof -
  have "contains t ''UpperLeftPointMtrs''"
    using contains_append [of pre "''UpperLeftPointMtrs''" "''=('' @ X @ '','' @ Y @ '')''"]
    by (simp add: assms(3))
  then have "[i \<leftarrow> md. contains i ''UpperLeftPointMtrs'']
      = t # [i \<leftarrow> after. contains i ''UpperLeftPointMtrs'']"
    using assms(2) by (simp add: assms(1))
  moreover have "ulc_fields t = [X, Y]"
    unfolding assms(3) using assms(4,5) by (rule ulc_fields_pair)
  ultimately show ?thesis
    using assms(6,7) by (simp add: upper_left_def bind_err_def float_of_def)
qed

text \<open>The example metadata: the marker token is the third of five.\<close>

theorem upper_left_of_first_marker_token_witness:
  "ex_md = [''GROUP=GridStructure'', ''XDim=3000'']
           @ ([] @ ''UpperLeftPointMtrs=('' @ ''-8895604.157333'' @ '','' @ ''5559752.598333'' @ '')'')
           # [''LowerRightMtrs=(-7783653.637667,4447802.078667)'', ''END''] \<and>
   py_float ex_lib ''-8895604.157333'' = Some (- 8895604.157333) \<and>
   py_float ex_lib ''5559752.598333'' = Some 5559752.598333 \<and>
   upper_left ex_lib ex_md = Inr (- 8895604.157333, 5559752.598333)"
proof -
  have md: "ex_md = [''GROUP=GridStructure'', ''XDim=3000'']
           @ ([] @ ''UpperLeftPointMtrs=('' @ ''-8895604.157333'' @ '','' @ ''5559752.598333'' @ '')'')
           # [''LowerRightMtrs=(-7783653.637667,4447802.078667)'', ''END'']"
    by (simp add: ex_md_def)
  have before: "\<forall>i \<in> set [''GROUP=GridStructure'', ''XDim=3000'']. \<not> contains i ''UpperLeftPointMtrs''"
    by (simp add: startswith_def)
  have X: "set ''-8895604.157333'' \<inter> {CHR '','', CHR ''('', CHR '')''} = {}"
    and Y: "set ''5559752.598333'' \<inter> {CHR '','', CHR ''('', CHR '')''} = {}"
    by simp_all
  have x: "py_float ex_lib ''-8895604.157333'' = Some (- 8895604.157333)"
    and y: "py_float ex_lib ''5559752.598333'' = Some 5559752.598333"
    by (simp_all add: ex_lib_def ex_float_def)
  from upper_left_of_first_marker_token [OF md before refl X Y x y] md x y
  show ?thesis by blast
qed

lemma ex_two_grids_md:
  "fileMetadata ex_granule_two_grids =
     Inr [''GROUP=GRID_1'', ''UpperLeftPointMtrs=(-8895604.157333,5559752.598333)'',
          ''GROUP=GRID_2'', ''UpperLeftPointMtrs=(-7783653.637667,4447802.078667)'']"
  by (simp add: fileMetadata_def ex_granule_two_grids_def ex_granule_def bind_err_def string_defs)

lemma ex_two_grids_upper_left:
  "upper_left ex_lib
     [''GROUP=GRID_1'', ''UpperLeftPointMtrs=(-8895604.157333,5559752.598333)'',
      ''GROUP=GRID_2'', ''UpperLeftPointMtrs=(-7783653.637667,4447802.078667)'']
   = Inr (- 8895604.157333, 5559752.598333)"
  by (simp add: upper_left_def ulc_fields_def float_of_def ex_lib_def ex_float_def
      bind_err_def string_defs)

text \<open>
  Claim C1 as stated fails when the token is not the first with the marker. The metadata
  of the two-grid granule includes a token \<^verbatim>\<open>UpperLeftPointMtrs=(X,Y)\<close> with
  \<open>X\<close> = -7783653.637667 and \<open>Y\<close> = 4447802.078667, and the extraction does not yield
  that pair: it yields the corner of the first grid.
\<close>

theorem upper_left_any_marker_token_counterexample:
  "fileMetadata ex_granule_two_grids =
     Inr [''GROUP=GRID_1'', ''UpperLeftPointMtrs=(-8895604.157333,5559752.598333)'',
          ''GROUP=GRID_2'',
          ''UpperLeftPointMtrs=('' @ ''-7783653.637667'' @ '','' @ ''4447802.078667'' @ '')''] \<and>
   py_float ex_lib ''-7783653.637667'' = Some (- 7783653.637667) \<and>
   py_float ex_lib ''4447802.078667'' = Some 4447802.078667 \<and>
   upper_left ex_lib
     [''GROUP=GRID_1'', ''UpperLeftPointMtrs=(-8895604.157333,5559752.598333)'',
      ''GROUP=GRID_2'', ''UpperLeftPointMtrs=(-7783653.637667,4447802.078667)'']
     \<noteq> Inr (- 7783653.637667, 4447802.078667)"
  by (simp add: ex_two_grids_md ex_two_grids_upper_left) (simp add: ex_lib_def ex_float_def)


subsection \<open>Reprojection\<close>

text \<open>
  Claim C6, as amended. For every source raster, \<^verbatim>\<open>reproject_viirs\<close> writes at
  \<^verbatim>\<open>os.path.join('data/intermediate_tif/viirs', date, name + '_out.tif')\<close> the source's
  metadata with the destination CRS and the grid of \<^verbatim>\<open>calculate_default_transform\<close> at
  resolution 0.006659501656959246: pixels of that size on both axes, whatever the pixel
  size of the source and of the grid GDAL proposes; every band of it is the library's
  nearest-neighbour reprojection of the same band of the source. The source file is as
  it was, provided its path is not that output path.
\<close>

theorem reproject_fixed_resolution:
  assumes "rio_open fs src_path = Inr src"
    and "bounds src = (b_left, b_bottom, b_right, b_top)"
    and "suggested_warp_output lib (crs src) dst_crs (width src) (height src)
           b_left b_bottom b_right b_top = ((c, a, b, f, d, e), dst_width, dst_height)"
    and "kwargs = src \<lparr> driver := ''GTiff'', crs := dst_crs,
                         transform := (c, 0.006659501656959246, b, f, d, - 0.006659501656959246),
                         width := nat \<lceil>real dst_width * (a / 0.006659501656959246)\<rceil>,
                         height := nat \<lceil>real dst_height * (e / - 0.006659501656959246)\<rceil> \<rparr>"
    and "src_path \<noteq> os_path_join ''data/intermediate_tif/viirs'' [date, name @ ''_out.tif'']"
  shows "reproject_viirs lib date name src_path dst_crs fs =
           (Inr (),
            AList.update (os_path_join ''data/intermediate_tif/viirs'' [date, name @ ''_out.tif''])
              (Raster (kwargs \<lparr> bands :=
                         map (\<lambda>i. reproject lib (src, i) (kwargs, i) (transform src) (crs src)
                                    (c, 0.006659501656959246, b, f, d, - 0.006659501656959246)
                                    dst_crs Nearest)
                             [1 ..< count src + 1] \<rparr>)) fs) \<and>
         map_of (snd (reproject_viirs lib date name src_path dst_crs fs)) src_path
           = Some (Raster src)"
proof -
  have run: "reproject_viirs lib date name src_path dst_crs fs =
           (Inr (),
            AList.update (os_path_join ''data/intermediate_tif/viirs'' [date, name @ ''_out.tif''])
              (Raster (kwargs \<lparr> bands :=
                         map (\<lambda>i. reproject lib (src, i) (kwargs, i) (transform src) (crs src)
                                    (c, 0.006659501656959246, b, f, d, - 0.006659501656959246)
                                    dst_crs Nearest)
                             [1 ..< count src + 1] \<rparr>)) fs)"
    by (simp only: reproject_viirs_def calculate_default_transform_def resolution_def
        intermediate_tif_def Let_def assms(1-4) sum.case prod.case)
  have "map_of fs src_path = Some (Raster src)"
    using assms(1) by (auto simp: rio_open_def split: option.splits content.splits)
  then have "map_of (snd (reproject_viirs lib date name src_path dst_crs fs)) src_path
      = Some (Raster src)"
    using assms(5) by (simp add: run map_of_update_other)
  with run show ?thesis ..
qed

text \<open>The function, step by step, for evaluation.\<close>

lemma reproject_viirs_eval:
  assumes "rio_open fs src_path = Inr src"
    and "bounds src = (b_left, b_bottom, b_right, b_top)"
    and "calculate_default_transform lib (crs src) dst_crs (width src) (height src)
           b_left b_bottom b_right b_top resolution = (T, W, H)"
  shows "reproject_viirs lib date name src_path dst_crs fs =
           (Inr (),
            AList.update (intermediate_tif date name)
              (Raster
                 (src \<lparr> driver := ''GTiff'', crs := dst_crs, transform := T, width := W,
                        height := H,
                        bands :=
                          map (\<lambda>i. reproject lib (src, i)
                                     (src \<lparr> driver := ''GTiff'', crs := dst_crs, transform := T,
                                            width := W, height := H \<rparr>, i)
                                     (transform src) (crs src) T dst_crs Nearest)
                              [1 ..< count src + 1] \<rparr>)) fs)"
  by (simp only: reproject_viirs_def assms sum.case prod.case Let_def)

text \<open>The Reproject stage on the example, evaluated.\<close>

lemma ex_intermediate_pth: "intermediate_pth ex_date = ''data/intermediate_tif/viirs/2020.01.01''"
  by (simp add: intermediate_pth_def ex_date_def string_defs)

lemma ex_src_open:
  "rio_open ex_fs_converted ''data/intermediate_tif/viirs/2020.01.01/g.tif'' = Inr ex_tif"
  by (simp add: rio_open_def ex_fs_converted_def ex_fs_def ex_scene_def)

lemma ex_bounds:
  "bounds ex_tif = (- 8895604.157333, 5559002.598333, - 8894854.157333, 5559752.598333)"
  by (simp add: bounds_def ex_tif_def)

lemma ex_suggested:
  "suggested_warp_output ex_lib src_crs dst_crs w h b_left b_bottom b_right b_top
     = ((- 124.46, 0.004, 0, 50, 0, - 0.004), w, h)"
  by (simp add: ex_lib_def)

lemma ex_scaled:
  "nat \<lceil>real (2::nat) * (0.004 / 0.006659501656959246)\<rceil> = 2"
  "nat \<lceil>real (2::nat) * (- 0.004 / - 0.006659501656959246)\<rceil> = 2"
  "nat \<lceil>real (4303::nat) * (0.004 / 0.006659501656959246)\<rceil> = 2585"
  "nat \<lceil>real (4303::nat) * (- 0.004 / - 0.006659501656959246)\<rceil> = 2585"
  "nat \<lceil>real (2489::nat) * (0.004 / 0.006659501656959246)\<rceil> = 1496"
  "nat \<lceil>real (2489::nat) * (- 0.004 / - 0.006659501656959246)\<rceil> = 1496"
proof -
  have "\<lceil>real (2::nat) * (0.004 / 0.006659501656959246)\<rceil> = 2"
    and "\<lceil>real (4303::nat) * (0.004 / 0.006659501656959246)\<rceil> = 2585"
    and "\<lceil>real (2489::nat) * (0.004 / 0.006659501656959246)\<rceil> = 1496"
    by (simp_all add: ceiling_eq_iff)
  then show
    "nat \<lceil>real (2::nat) * (0.004 / 0.006659501656959246)\<rceil> = 2"
    "nat \<lceil>real (2::nat) * (- 0.004 / - 0.006659501656959246)\<rceil> = 2"
    "nat \<lceil>real (4303::nat) * (0.004 / 0.006659501656959246)\<rceil> = 2585"
    "nat \<lceil>real (4303::nat) * (- 0.004 / - 0.006659501656959246)\<rceil> = 2585"
    "nat \<lceil>real (2489::nat) * (0.004 / 0.006659501656959246)\<rceil> = 1496"
    "nat \<lceil>real (2489::nat) * (- 0.004 / - 0.006659501656959246)\<rceil> = 1496"
    by simp_all
qed

lemma ex_cdt:
  "calculate_default_transform ex_lib src_crs dst_crs 2 2 b_left b_bottom b_right b_top
     0.006659501656959246 =
   ((- 124.46, 0.006659501656959246, 0, 50, 0, - 0.006659501656959246), 2, 2)"
  "calculate_default_transform ex_lib src_crs dst_crs 4303 2489 b_left b_bottom b_right b_top
     0.006659501656959246 =
   ((- 124.46, 0.006659501656959246, 0, 50, 0, - 0.006659501656959246), 2585, 1496)"
  using ex_scaled
  by (simp_all only: calculate_default_transform_def ex_suggested Let_def prod.case)

lemma ex_out_path:
  "os_path_join ''data/intermediate_tif/viirs'' [ex_date, ''g'' @ ''_out.tif'']
     = ''data/intermediate_tif/viirs/2020.01.01/g_out.tif''"
  by (simp add: ex_date_def string_defs)

lemma ex_copy:
  "map (\<lambda>i. reproject ex_lib (src, i) (k, i) t1 c1 t2 c2 Nearest) [1 ..< Suc 1] = [bands src ! 0]"
  by (simp add: ex_lib_def)

lemma ex_tif_meta: "width ex_tif = 2" "height ex_tif = 2" "count ex_tif = 1"
  by (simp_all add: ex_tif_def)

lemma ex_cdt_tif:
  "calculate_default_transform ex_lib (crs ex_tif) ''EPSG:4326'' (width ex_tif) (height ex_tif)
     b_left b_bottom b_right b_top resolution =
   ((- 124.46, 0.006659501656959246, 0, 50, 0, - 0.006659501656959246), 2, 2)"
  by (simp only: ex_tif_meta resolution_def ex_cdt)

lemma ex_intermediate_tif:
  "intermediate_tif ex_date ''g'' = ''data/intermediate_tif/viirs/2020.01.01/g_out.tif''"
  using ex_out_path by (simp add: intermediate_tif_def)

lemma ex_reproject:
  "reproject_viirs ex_lib ex_date ''g'' ''data/intermediate_tif/viirs/2020.01.01/g.tif''
     ''EPSG:4326'' ex_fs_converted = (Inr (), ex_fs_reprojected)"
proof -
  have u: "AList.update ''data/intermediate_tif/viirs/2020.01.01/g_out.tif'' x ex_fs_converted
      = ex_fs_converted @ [(''data/intermediate_tif/viirs/2020.01.01/g_out.tif'', x)]" for x
    by (simp add: ex_fs_converted_def ex_fs_def ex_scene_def)
  show ?thesis
    unfolding reproject_viirs_eval [OF ex_src_open ex_bounds ex_cdt_tif] ex_intermediate_tif u
    by (simp add: ex_fs_reprojected_def ex_out_def ex_tif_def ex_lib_def)
qed

text \<open>
  The example raster, 375 m per pixel, reprojected from a proposal of 0.004 degrees per
  pixel: the pixel size written is the fixed one, and the source is still there.
\<close>

theorem reproject_fixed_resolution_witness:
  "rio_open ex_fs_converted ''data/intermediate_tif/viirs/2020.01.01/g.tif'' = Inr ex_tif \<and>
   transform ex_tif = (- 8895604.157333, 375, 0, 5559752.598333, 0, - 375) \<and>
   reproject_viirs ex_lib ex_date ''g'' ''data/intermediate_tif/viirs/2020.01.01/g.tif''
     ''EPSG:4326'' ex_fs_converted = (Inr (), ex_fs_reprojected) \<and>
   map_of ex_fs_reprojected ''data/intermediate_tif/viirs/2020.01.01/g_out.tif''
     = Some (Raster ex_out) \<and>
   transform ex_out =
     (- 124.46, 0.006659501656959246, 0, 50, 0, - 0.006659501656959246) \<and>
   map_of ex_fs_reprojected ''data/intermediate_tif/viirs/2020.01.01/g.tif''
     = Some (Raster ex_tif)"
proof -
  have ne: "''data/intermediate_tif/viirs/2020.01.01/g.tif''
      \<noteq> os_path_join ''data/intermediate_tif/viirs'' [ex_date, ''g'' @ ''_out.tif'']"
    unfolding ex_out_path by simp
  from reproject_fixed_resolution
    [OF ex_src_open ex_bounds ex_suggested refl ne, where dst_crs = "''EPSG:4326''"]
  have "map_of (snd (reproject_viirs ex_lib ex_date ''g''
            ''data/intermediate_tif/viirs/2020.01.01/g.tif'' ''EPSG:4326'' ex_fs_converted))
          ''data/intermediate_tif/viirs/2020.01.01/g.tif'' = Some (Raster ex_tif)"
    by blast
  then have "map_of ex_fs_reprojected ''data/intermediate_tif/viirs/2020.01.01/g.tif''
      = Some (Raster ex_tif)"
    by (simp only: ex_reproject snd_conv)
  moreover have "map_of ex_fs_reprojected ''data/intermediate_tif/viirs/2020.01.01/g_out.tif''
      = Some (Raster ex_out)"
    by (simp add: ex_fs_reprojected_def ex_fs_converted_def ex_fs_def ex_scene_def)
  moreover have "transform ex_out =
      (- 124.46, 0.006659501656959246, 0, 50, 0, - 0.006659501656959246)"
    and "transform ex_tif = (- 8895604.157333, 375, 0, 5559752.598333, 0, - 375)"
    by (simp_all add: ex_out_def ex_tif_def)
  ultimately show ?thesis
    using ex_src_open ex_reproject by blast
qed

text \<open>A source that lies at the output path, on the example.\<close>

lemma ex_self_open:
  "rio_open ex_fs_self ''data/intermediate_tif/viirs/2020.01.01/g_out.tif'' = Inr ex_tif"
  by (simp add: rio_open_def ex_fs_self_def)

lemma ex_self_reproject:
  "reproject_viirs ex_lib ex_date ''g'' ''data/intermediate_tif/viirs/2020.01.01/g_out.tif''
     ''EPSG:4326'' ex_fs_self
   = (Inr (), [(''data/intermediate_tif/viirs/2020.01.01/g_out.tif'', Raster ex_out)])"
  unfolding reproject_viirs_eval [OF ex_self_open ex_bounds ex_cdt_tif] ex_intermediate_tif
  by (simp add: ex_fs_self_def ex_out_def ex_tif_def ex_lib_def)

text \<open>
  Claim C6 as stated fails where it says the source is never modified: a source that
  lies at the output path is replaced by its reprojection. Here the raster at
  \<^verbatim>\<open>g_out.tif\<close> is reprojected under the name \<^verbatim>\<open>g\<close>.
\<close>

theorem reproject_overwrites_source_counterexample:
  "rio_open ex_fs_self ''data/intermediate_tif/viirs/2020.01.01/g_out.tif'' = Inr ex_tif \<and>
   map_of (snd (reproject_viirs ex_lib ex_date ''g''
                  ''data/intermediate_tif/viirs/2020.01.01/g_out.tif'' ''EPSG:4326'' ex_fs_self))
     ''data/intermediate_tif/viirs/2020.01.01/g_out.tif'' \<noteq> Some (Raster ex_tif)"
  by (simp add: ex_self_open ex_self_reproject) (simp add: ex_out_def ex_tif_def prj_def)


subsection \<open>Where the mosaic goes\<close>

text \<open>
  The intermediate path is relative and the archive path absolute, since the date is a
  file name and holds no slash.
\<close>

lemma basename_no_slash: "CHR ''/'' \<notin> set (basename p)"
  by (auto simp: basename_def dest: set_takeWhileD)

lemma not_absolute: "CHR ''/'' \<notin> set b \<Longrightarrow> \<not> startswith b ''/''"
  by (cases b) (auto simp: startswith_def)

lemma path_join_relative:
  "a \<noteq> [] \<Longrightarrow> \<not> startswith b ''/'' \<Longrightarrow> \<exists>t. path_join a b = a @ t"
  by (simp add: path_join_def)

lemma set_hd_split: "set (hd (split s sep)) \<subseteq> set s"
proof (induction s sep rule: split.induct)
  case (1 sep)
  then show ?case by simp
next
  case (2 c cs sep)
  show ?case
  proof (cases "sep \<noteq> [] \<and> startswith (c # cs) sep")
    case True
    then show ?thesis by simp
  next
    case False
    with 2 show ?thesis
      by (cases "split cs sep") auto
  qed
qed

lemma int_pth_relative: "\<exists>t. int_pth pth = CHR ''d'' # t"
proof -
  let ?a = "path_join (path_join ''data'' ''intermediate_tif'') ''viirs''"
  have a: "?a = ''data/intermediate_tif/viirs''"
    by (simp add: string_defs)
  have "\<not> startswith (basename pth) ''/''"
    using basename_no_slash by (rule not_absolute)
  then obtain t where t: "path_join ?a (basename pth) = ?a @ t"
    using path_join_relative [of ?a "basename pth"] a by auto
  have "\<not> startswith ''final.tif'' ''/''"
    by (simp add: startswith_def)
  then obtain u where "path_join (?a @ t) ''final.tif'' = (?a @ t) @ u"
    using path_join_relative [of "?a @ t" "''final.tif''"] a by auto
  with t have "int_pth pth = ?a @ t @ u"
    by (simp add: int_pth_def os_path_join_def Let_def)
  then show ?thesis
    unfolding a by simp
qed

lemma fin_pth_absolute: "\<exists>t. fin_pth pth = CHR ''/'' # t"
proof -
  let ?a = "''/home/jovyan/geoanalytics_user_shared_data/modis-terra/mosaics/viirs''"
  let ?year = "hd (split (basename pth) ''.'')"
  let ?date = "basename pth"
  have a: "os_path_join ''/home/jovyan/geoanalytics_user_shared_data''
             [''modis-terra'', ''mosaics'', ''viirs'', y] = path_join ?a y" for y
    by (simp add: os_path_join_def) (simp add: string_defs)
  have "CHR ''/'' \<notin> set ?year"
    using set_hd_split [of ?date "''.''"] basename_no_slash [of pth] by auto
  then have "\<not> startswith ?year ''/''"
    by (rule not_absolute)
  then obtain t where t: "path_join ?a ?year = ?a @ t"
    using path_join_relative [of ?a ?year] by auto
  have "CHR ''/'' \<notin> set (?date @ ''.tif'')"
    using basename_no_slash [of pth] by simp
  then have "\<not> startswith (?date @ ''.tif'') ''/''"
    by (rule not_absolute)
  then obtain u where "path_join (?a @ t) (?date @ ''.tif'') = (?a @ t) @ u"
    using path_join_relative [of "?a @ t" "?date @ ''.tif''"] by auto
  with t have "fin_pth pth = ?a @ t @ u"
    by (simp add: fin_pth_def out_pth_def a Let_def)
  then show ?thesis by simp
qed

lemma fin_pth_not_int_pth: "fin_pth pth \<noteq> int_pth pth"
  using int_pth_relative [of pth] fin_pth_absolute [of pth] by auto

text \<open>\<^verbatim>\<open>create_viirs_mosaic\<close> writes at \<^verbatim>\<open>int_pth\<close> and nowhere else.\<close>

lemma create_viirs_mosaic_frame:
  "p \<noteq> int_pth pth \<Longrightarrow> map_of (snd (create_viirs_mosaic lib pth fs)) p = map_of fs p"
  by (auto simp: create_viirs_mosaic_def Let_def map_of_update_other
      split: sum.splits prod.splits)

text \<open>
  Claim C9. \<^verbatim>\<open>create_viirs_mosaic\<close> writes at \<^verbatim>\<open>int_pth\<close> and at no other path. The
  archive path \<^verbatim>\<open>fin_pth\<close> is another path, so the file there, or its absence, is as
  before.
\<close>

theorem archive_path_not_written:
  "fin_pth pth \<noteq> int_pth pth \<and>
   map_of (snd (create_viirs_mosaic lib pth fs)) (fin_pth pth) = map_of fs (fin_pth pth) \<and>
   (\<forall>p. p \<noteq> int_pth pth \<longrightarrow> map_of (snd (create_viirs_mosaic lib pth fs)) p = map_of fs p)"
  using fin_pth_not_int_pth [of pth] by (simp add: create_viirs_mosaic_frame)

lemma int_pth_date:
  assumes "basename pth \<noteq> []"
  shows "int_pth pth = ''data/intermediate_tif/viirs/'' @ basename pth @ ''/final.tif''"
proof -
  let ?date = "basename pth"
  have ns: "CHR ''/'' \<notin> set ?date"
    by (rule basename_no_slash)
  then have "\<not> startswith ?date ''/''"
    by (rule not_absolute)
  then have 1: "path_join ''data/intermediate_tif/viirs'' ?date = ''data/intermediate_tif/viirs/'' @ ?date"
    by (simp add: path_join_def) (simp add: endswith_def)
  have "last (''data/intermediate_tif/viirs/'' @ ?date) = last ?date"
    using assms by simp
  moreover have "last ?date \<noteq> CHR ''/''"
    using assms ns last_in_set by metis
  ultimately have "\<not> endswith (''data/intermediate_tif/viirs/'' @ ?date) ''/''"
    unfolding endswith_iff by (metis last_snoc append_assoc)
  then have "path_join (''data/intermediate_tif/viirs/'' @ ?date) ''final.tif''
      = (''data/intermediate_tif/viirs/'' @ ?date) @ ''/final.tif''"
    by (simp add: path_join_def) (simp add: startswith_def)
  with 1 show ?thesis
    by (simp add: int_pth_def os_path_join_def Let_def) (simp add: string_defs)
qed

subsection \<open>The mosaic written\<close>

text \<open>Opening files that all hold rasters gives these rasters, in order.\<close>

lemma open_all_rasters:
  "map (map_of fs) ps = map (\<lambda>src. Some (Raster src)) srcs \<Longrightarrow> open_all fs ps = Inr srcs"
proof (induction ps arbitrary: srcs)
  case Nil
  then show ?case by simp
next
  case (Cons p ps)
  then obtain src rest where srcs: "srcs = src # rest"
    by (cases srcs) auto
  with Cons.prems have "map_of fs p = Some (Raster src)"
    and "map (map_of fs) ps = map (\<lambda>src. Some (Raster src)) rest"
    by simp_all
  with Cons.IH [of rest] srcs show ?case
    by (simp add: rio_open_def bind_err_def)
qed

text \<open>
  The grid of the mosaic: the box of line 160 is 4302.54 pixels wide and 2488.93 pixels
  high, which \<^verbatim>\<open>merge\<close> rounds to 4303 columns and 2489 rows.
\<close>

lemma mosaic_columns: "py_round ((- 112.3242 - - 140.977) / 0.006659501656959246) = 4303"
proof -
  have "\<lfloor>(- 112.3242 - - 140.977) / 0.006659501656959246 :: real\<rfloor> = 4302"
    by (simp add: floor_eq_iff)
  then show ?thesis
    by (simp add: py_round_def Let_def)
qed

lemma mosaic_rows: "py_round ((63.134 - 46.559) / 0.006659501656959246) = 2489"
proof -
  have "\<lfloor>(63.134 - 46.559) / 0.006659501656959246 :: real\<rfloor> = 2488"
    by (simp add: floor_eq_iff)
  then show ?thesis
    by (simp add: py_round_def Let_def)
qed

lemma merge_mosaic_bounds:
  "merge lib srcs mosaic_bounds resolution =
     (\<lparr> shape0 = count (hd srcs), shape1 = 2489, shape2 = 4303,
         cells = merge_cells lib srcs
                   (- 140.977, 0.006659501656959246, 0, 63.134, 0, - 0.006659501656959246)
                   2489 4303 \<rparr>,
      (- 140.977, 0.006659501656959246, 0, 63.134, 0, - 0.006659501656959246))"
  by (simp only: merge_def mosaic_bounds_def resolution_def prod.case Let_def mosaic_columns
      mosaic_rows) simp

text \<open>The function, step by step.\<close>

lemma create_viirs_mosaic_eval:
  assumes "open_all fs (glob_star fs pth ''_out.tif'') = Inr srcs" and "srcs \<noteq> []"
  shows "create_viirs_mosaic lib pth fs =
           (Inr (),
            AList.update (int_pth pth)
              (Raster ((last srcs)
                 \<lparr> driver := ''GTiff'', height := 2489, width := 4303,
                   transform :=
                     (- 140.977, 0.006659501656959246, 0, 63.134, 0, - 0.006659501656959246),
                   bands :=
                     merge_cells lib srcs
                       (- 140.977, 0.006659501656959246, 0, 63.134, 0, - 0.006659501656959246)
                       2489 4303 \<rparr>)) fs)"
  using assms(2)
  by (simp only: create_viirs_mosaic_def Let_def assms(1) sum.case merge_mosaic_bounds prod.case)
     simp

text \<open>
  Claim C5, as amended. When the files directly in \<^verbatim>\<open>pth\<close> that match \<^verbatim>\<open>*_out.tif\<close> are
  N rasters, N at least 1, \<^verbatim>\<open>create_viirs_mosaic\<close> returns normally and changes exactly
  one file, \<^verbatim>\<open>data/intermediate_tif/viirs/<date>/final.tif\<close>. It holds, under the metadata
  of the raster opened last, the merge of all N rasters on a grid of 4303 columns and
  2489 rows of 0.006659501656959246 degrees from west -140.977 and north 63.134. West
  and north of the mosaic are those of the box of line 160; its east and south are
  where the whole pixels end, east of -112.3242 at about -112.32116 and south of 46.559
  at about 46.5585.
\<close>

theorem mosaic_written:
  assumes "map (map_of fs) (glob_star fs pth ''_out.tif'') = map (\<lambda>src. Some (Raster src)) srcs"
    and "srcs \<noteq> []"
    and "basename pth \<noteq> []"
    and "final =
           (last srcs)
             \<lparr> driver := ''GTiff'', height := 2489, width := 4303,
               transform :=
                 (- 140.977, 0.006659501656959246, 0, 63.134, 0, - 0.006659501656959246),
               bands :=
                 merge_cells lib srcs
                   (- 140.977, 0.006659501656959246, 0, 63.134, 0, - 0.006659501656959246)
                   2489 4303 \<rparr>"
  shows "create_viirs_mosaic lib pth fs =
           (Inr (),
            AList.update (''data/intermediate_tif/viirs/'' @ basename pth @ ''/final.tif'')
              (Raster final) fs) \<and>
         bounds final =
           (- 140.977, 63.134 - 2489 * 0.006659501656959246,
            - 140.977 + 4303 * 0.006659501656959246, 63.134) \<and>
         (46.5585 :: real) < 63.134 - 2489 * 0.006659501656959246 \<and>
         63.134 - 2489 * 0.006659501656959246 < (46.5586 :: real) \<and>
         (- 112.3212 :: real) < - 140.977 + 4303 * 0.006659501656959246 \<and>
         - 140.977 + 4303 * 0.006659501656959246 < (- 112.3211 :: real)"
proof -
  have "open_all fs (glob_star fs pth ''_out.tif'') = Inr srcs"
    using assms(1) by (rule open_all_rasters)
  then have run: "create_viirs_mosaic lib pth fs =
      (Inr (),
       AList.update (''data/intermediate_tif/viirs/'' @ basename pth @ ''/final.tif'')
         (Raster final) fs)"
    using assms(2) unfolding assms(4) int_pth_date [OF assms(3), symmetric]
    by (rule create_viirs_mosaic_eval)
  have "bounds final =
      (- 140.977, 63.134 - 2489 * 0.006659501656959246,
       - 140.977 + 4303 * 0.006659501656959246, 63.134)"
    by (simp add: assms(4) bounds_def)
  with run show ?thesis
    by simp
qed

text \<open>The Mosaic stage on the examples, evaluated.\<close>

lemma ex_glob_out:
  "glob_star ex_fs_reprojected (intermediate_pth ex_date) ''_out.tif''
     = [''data/intermediate_tif/viirs/2020.01.01/g_out.tif'']"
  unfolding ex_intermediate_pth
  by (simp add: glob_star_def ex_fs_reprojected_def ex_fs_converted_def ex_fs_def ex_scene_def
      string_defs)

lemma ex_glob_two:
  "glob_star ex_fs_two_out (intermediate_pth ex_date) ''_out.tif''
     = [''data/intermediate_tif/viirs/2020.01.01/g_out.tif'',
        ''data/intermediate_tif/viirs/2020.01.01/h_out.tif'']"
  unfolding ex_intermediate_pth
  by (simp add: glob_star_def ex_fs_two_out_def string_defs)

lemma ex_open_all:
  "open_all ex_fs_reprojected [''data/intermediate_tif/viirs/2020.01.01/g_out.tif''] = Inr [ex_out]"
  by (simp add: rio_open_def bind_err_def ex_fs_reprojected_def ex_fs_converted_def ex_fs_def
      ex_scene_def)

lemma ex_merge_cells: "merge_cells ex_lib srcs t h w = [[[int (length srcs)]]]"
  by (simp add: ex_lib_def)

lemma ex_basename: "basename (intermediate_pth ex_date) = ''2020.01.01''"
  unfolding ex_intermediate_pth by (simp add: basename_def)

lemma ex_final_update:
  "AList.update ''data/intermediate_tif/viirs/2020.01.01/final.tif'' c ex_fs_reprojected
     = ex_fs_reprojected @ [(''data/intermediate_tif/viirs/2020.01.01/final.tif'', c)]"
  by (simp add: ex_fs_reprojected_def ex_fs_converted_def ex_fs_def ex_scene_def)

lemma ex_year: "hd (split ''2020.01.01'' ''.'') = ''2020''"
  by (simp add: startswith_def)

lemma ex_out_pth:
  "out_pth (intermediate_pth ex_date)
     = ''/home/jovyan/geoanalytics_user_shared_data/modis-terra/mosaics/viirs/2020''"
  by (simp only: out_pth_def ex_basename Let_def ex_year) (simp add: string_defs)

lemma ex_fin_pth:
  "fin_pth (intermediate_pth ex_date)
     = ''/home/jovyan/geoanalytics_user_shared_data/modis-terra/mosaics/viirs/2020/2020.01.01.tif''"
  by (simp only: fin_pth_def ex_out_pth ex_basename Let_def) (simp add: string_defs)

lemma ex_int_pth:
  "int_pth (intermediate_pth ex_date) = ''data/intermediate_tif/viirs/2020.01.01/final.tif''"
  by (simp only: int_pth_def ex_basename Let_def) (simp add: string_defs)

lemma ex_two_update:
  "AList.update ''data/intermediate_tif/viirs/2020.01.01/final.tif'' c ex_fs_two_out
     = ex_fs_two_out @ [(''data/intermediate_tif/viirs/2020.01.01/final.tif'', c)]"
  by (simp add: ex_fs_two_out_def)

lemma ex_create:
  "create_viirs_mosaic ex_lib (intermediate_pth ex_date) ex_fs_reprojected =
     (Inr (), ex_fs_reprojected @
        [(''data/intermediate_tif/viirs/2020.01.01/final.tif'', Raster ex_final)])"
proof -
  have o: "open_all ex_fs_reprojected
      (glob_star ex_fs_reprojected (intermediate_pth ex_date) ''_out.tif'') = Inr [ex_out]"
    by (simp only: ex_glob_out ex_open_all)
  have n: "[ex_out] \<noteq> []"
    by simp
  show ?thesis
    unfolding create_viirs_mosaic_eval [OF o n] ex_int_pth ex_final_update ex_merge_cells
    by (simp add: ex_final_def ex_out_def ex_tif_def)
qed

text \<open>
  A date with two reprojected rasters, which differ in their no-data value: the mosaic
  is merged from both and carries the metadata of the second.
\<close>

theorem mosaic_written_witness:
  "glob_star ex_fs_two_out (intermediate_pth ex_date) ''_out.tif''
     = [''data/intermediate_tif/viirs/2020.01.01/g_out.tif'',
        ''data/intermediate_tif/viirs/2020.01.01/h_out.tif''] \<and>
   map (map_of ex_fs_two_out) (glob_star ex_fs_two_out (intermediate_pth ex_date) ''_out.tif'')
     = [Some (Raster ex_out), Some (Raster ex_out_h)] \<and>
   create_viirs_mosaic ex_lib (intermediate_pth ex_date) ex_fs_two_out =
     (Inr (), ex_fs_two_out @
        [(''data/intermediate_tif/viirs/2020.01.01/final.tif'', Raster ex_final_two)]) \<and>
   nodata ex_final_two = Some 255 \<and> bands ex_final_two = [[[2]]] \<and>
   bounds ex_final_two =
     (- 140.977, 63.134 - 2489 * 0.006659501656959246,
      - 140.977 + 4303 * 0.006659501656959246, 63.134)"
proof -
  have m: "map (map_of ex_fs_two_out)
      (glob_star ex_fs_two_out (intermediate_pth ex_date) ''_out.tif'')
      = map (\<lambda>src. Some (Raster src)) [ex_out, ex_out_h]"
    unfolding ex_glob_two by (simp add: ex_fs_two_out_def)
  have n: "[ex_out, ex_out_h] \<noteq> []"
    by simp
  have b: "basename (intermediate_pth ex_date) \<noteq> []"
    by (simp add: ex_basename)
  have f: "ex_final_two =
      (last [ex_out, ex_out_h])
        \<lparr> driver := ''GTiff'', height := 2489, width := 4303,
          transform :=
            (- 140.977, 0.006659501656959246, 0, 63.134, 0, - 0.006659501656959246),
          bands :=
            merge_cells ex_lib [ex_out, ex_out_h]
              (- 140.977, 0.006659501656959246, 0, 63.134, 0, - 0.006659501656959246)
              2489 4303 \<rparr>"
    unfolding ex_merge_cells
    by (simp add: ex_final_two_def ex_final_def ex_out_h_def ex_out_def ex_tif_def)
  from mosaic_written [OF m n b f]
  have "create_viirs_mosaic ex_lib (intermediate_pth ex_date) ex_fs_two_out =
      (Inr (), ex_fs_two_out @
         [(''data/intermediate_tif/viirs/2020.01.01/final.tif'', Raster ex_final_two)])"
    and "bounds ex_final_two =
      (- 140.977, 63.134 - 2489 * 0.006659501656959246,
       - 140.977 + 4303 * 0.006659501656959246, 63.134)"
    unfolding ex_basename by (simp_all only: ex_two_update append.simps)
  moreover have "nodata ex_final_two = Some 255" "bands ex_final_two = [[[2]]]"
    by (simp_all add: ex_final_two_def)
  ultimately show ?thesis
    using m ex_glob_two by simp
qed

text \<open>
  Claim C5 as stated fails where it says the mosaic's bounds are exactly the box: for
  the mosaic of the example date the bounds are not
  (-140.977, 46.559, -112.3242, 63.134).
\<close>

theorem mosaic_bounds_not_box_counterexample:
  "create_viirs_mosaic ex_lib (intermediate_pth ex_date) ex_fs_reprojected =
     (Inr (), ex_fs_reprojected @
        [(''data/intermediate_tif/viirs/2020.01.01/final.tif'', Raster ex_final)]) \<and>
   bounds ex_final \<noteq> (- 140.977, 46.559, - 112.3242, 63.134)"
  by (simp add: ex_create) (simp add: bounds_def ex_final_def)

text \<open>On the same example the archive path holds no file before and none after.\<close>

theorem archive_path_not_written_witness:
  "fin_pth (intermediate_pth ex_date)
     = ''/home/jovyan/geoanalytics_user_shared_data/modis-terra/mosaics/viirs/2020/2020.01.01.tif'' \<and>
   int_pth (intermediate_pth ex_date) = ''data/intermediate_tif/viirs/2020.01.01/final.tif'' \<and>
   map_of ex_fs_reprojected (fin_pth (intermediate_pth ex_date)) = None \<and>
   map_of (snd (create_viirs_mosaic ex_lib (intermediate_pth ex_date) ex_fs_reprojected))
     (fin_pth (intermediate_pth ex_date)) = None \<and>
   map_of (snd (create_viirs_mosaic ex_lib (intermediate_pth ex_date) ex_fs_reprojected))
     (int_pth (intermediate_pth ex_date)) = Some (Raster ex_final)"
proof -
  have none: "map_of ex_fs_reprojected (fin_pth (intermediate_pth ex_date)) = None"
    unfolding ex_fin_pth
    by (simp add: ex_fs_reprojected_def ex_fs_converted_def ex_fs_def ex_scene_def)
  from archive_path_not_written [of "intermediate_pth ex_date" ex_lib ex_fs_reprojected] none
  have "map_of (snd (create_viirs_mosaic ex_lib (intermediate_pth ex_date) ex_fs_reprojected))
     (fin_pth (intermediate_pth ex_date)) = None"
    by simp
  moreover
  have "map_of (snd (create_viirs_mosaic ex_lib (intermediate_pth ex_date) ex_fs_reprojected))
     (int_pth (intermediate_pth ex_date)) = Some (Raster ex_final)"
    unfolding ex_create ex_int_pth
    by (simp add: ex_fs_reprojected_def ex_fs_converted_def ex_fs_def ex_scene_def)
  ultimately show ?thesis
    using none ex_fin_pth ex_int_pth by blast
qed


subsection \<open>The Reproject batch\<close>

text \<open>\<^verbatim>\<open>split\<close> and \<^verbatim>\<open>join\<close> at the same separator are inverse.\<close>

lemma join_Cons: "ps \<noteq> [] \<Longrightarrow> join sep (p # ps) = p @ sep @ join sep ps"
  by (cases ps) simp_all

lemma join_split: "sep \<noteq> [] \<Longrightarrow> join sep (split s sep) = s"
proof (induction s sep rule: split.induct)
  case (1 sep)
  then show ?case by simp
next
  case (2 c cs sep)
  show ?case
  proof (cases "startswith (c # cs) sep")
    case True
    then have "sep @ drop (length sep) (c # cs) = c # cs"
      unfolding startswith_def by (metis append_take_drop_id)
    with 2 True show ?thesis
      by (simp add: join_Cons split_nonempty)
  next
    case False
    obtain w ws where s: "split cs sep = w # ws"
      using split_nonempty [of cs sep] by (cases "split cs sep") auto
    with 2 False have "join sep (w # ws) = cs" by simp
    then have "join sep ((c # w) # ws) = c # cs"
      by (cases ws) auto
    with False s show ?thesis by simp
  qed
qed

lemma join_snoc: "ps \<noteq> [] \<Longrightarrow> join sep (ps @ [p]) = join sep ps @ sep @ p"
proof (induction ps)
  case Nil
  then show ?case by simp
next
  case (Cons a ps)
  then show ?case
    by (cases ps) (simp_all add: join_Cons)
qed

lemma basename_name: "CHR ''/'' \<notin> set b \<Longrightarrow> basename b = b"
proof -
  assume "CHR ''/'' \<notin> set b"
  then have "takeWhile (\<lambda>c. c \<noteq> CHR ''/'') (rev b) = rev b"
    by (auto simp: takeWhile_eq_all_conv)
  then show ?thesis
    unfolding basename_def by (simp only: rev_rev_ident)
qed

text \<open>A file name with an extension is its stem, a dot, and the extension.\<close>

lemma stem_dot:
  assumes "CHR ''/'' \<notin> set b" and "CHR ''.'' \<in> set b"
  shows "\<exists>ext. b = stem b @ ''.'' @ ext"
proof -
  have bn: "basename b = b"
    using assms(1) by (rule basename_name)
  let ?ps = "split b ''.''"
  have j: "join ''.'' ?ps = b"
    by (simp add: join_split)
  have "butlast ?ps \<noteq> []"
  proof
    assume "butlast ?ps = []"
    then have "?ps = [last ?ps]"
      using split_nonempty [of b "''.''"] by (metis append_butlast_last_id append_Nil)
    from \<open>?ps = [last ?ps]\<close> j have "last ?ps = b"
      by (metis join.simps(2))
    with \<open>?ps = [last ?ps]\<close> have one: "split b ''.'' = [b]" by simp
    have "CHR ''.'' \<in> set b \<Longrightarrow> split b ''.'' \<noteq> [b]" for b
    proof (induction b)
      case Nil
      then show ?case by simp
    next
      case (Cons a b)
      show ?case
      proof (cases "a = CHR ''.''")
        case True
        then show ?thesis by (simp add: startswith_def)
      next
        case False
        with Cons have "split b ''.'' \<noteq> [b]" by simp
        with False show ?thesis
          by (auto simp: startswith_def split: list.splits)
      qed
    qed
    with assms(2) one show False by blast
  qed
  then have "join ''.'' (butlast ?ps @ [last ?ps]) = join ''.'' (butlast ?ps) @ ''.'' @ last ?ps"
    by (rule join_snoc)
  then have "b = stem b @ ''.'' @ last ?ps"
    using j split_nonempty [of b "''.''"] by (simp add: stem_def bn)
  then show ?thesis ..
qed

lemma path_join_name:
  "CHR ''/'' \<notin> set b \<Longrightarrow>
   path_join a b = a @ (if a = [] \<or> endswith a ''/'' then [] else ''/'') @ b"
  using not_absolute [of b] by (simp add: path_join_def)

lemma set_stem: "set (stem p) \<subseteq> set (basename p)"
proof -
  have pieces: "\<forall>w \<in> set (split s sep). set w \<subseteq> set s" for s sep
  proof (induction s sep rule: split.induct)
    case (1 sep)
    then show ?case by simp
  next
    case (2 c cs sep)
    show ?case
    proof (cases "sep \<noteq> [] \<and> startswith (c # cs) sep")
      case True
      with 2 have "\<forall>w \<in> set (split (drop (length sep) (c # cs)) sep).
          set w \<subseteq> set (drop (length sep) (c # cs))"
        by simp
      moreover have "set (drop (length sep) (c # cs)) \<subseteq> set (c # cs)"
        by (rule set_drop_subset)
      ultimately show ?thesis
        using True by auto
    next
      case False
      with 2 show ?thesis
        by (cases "split cs sep") auto
    qed
  qed
  have joined: "set (join ''.'' ps) \<subseteq> insert CHR ''.'' (\<Union> (set ` set ps))" for ps
    by (induction "''.''" ps rule: join.induct) auto
  have dot: "butlast (split s ''.'') \<noteq> [] \<Longrightarrow> CHR ''.'' \<in> set s" for s
  proof (induction s)
    case Nil
    then show ?case by simp
  next
    case (Cons a s)
    then show ?case
      by (cases "a = CHR ''.''") (auto simp: startswith_def split: list.splits if_splits)
  qed
  show ?thesis
  proof (cases "butlast (split (basename p) ''.'') = []")
    case True
    then show ?thesis by (simp add: stem_def)
  next
    case False
    have "set (stem p) \<subseteq> insert CHR ''.'' (\<Union> (set ` set (butlast (split (basename p) ''.''))))"
      unfolding stem_def by (rule joined)
    moreover have "\<Union> (set ` set (butlast (split (basename p) ''.''))) \<subseteq> set (basename p)"
      using pieces [of "basename p" "''.''"] by (auto dest: in_set_butlastD)
    ultimately show ?thesis
      using dot [OF False] by auto
  qed
qed

text \<open>
  In the batch of the Reproject stage no unit writes over its own source: the source
  is \<^verbatim>\<open><name>.tif\<close> and the destination \<^verbatim>\<open><name>_out.tif\<close> in the same directory.
\<close>

lemma reproj_args_src_not_dst:
  assumes "(d, n, tif, c) \<in> set (reproj_args date fs)"
  shows "tif \<noteq> os_path_join ''data/intermediate_tif/viirs'' [d, n @ ''_out.tif'']"
proof -
  let ?b = "basename tif"
  let ?D = "path_join ''data/intermediate_tif/viirs'' date"
  from assms have d: "d = date" and n: "n = stem tif"
    and g: "tif \<in> set (glob_star fs (intermediate_pth date) ''.tif'')"
    by (auto simp: reproj_args_def)
  have D: "intermediate_pth date = ?D"
    by (simp add: intermediate_pth_def os_path_join_def) (simp add: string_defs)
  from g have tif: "tif = path_join ?D ?b" and e: "endswith ?b ''.tif''"
    by (auto simp: glob_star_def D)
  have ns: "CHR ''/'' \<notin> set ?b"
    by (rule basename_no_slash)
  from e have "CHR ''.'' \<in> set ?b"
    by (auto simp: endswith_iff)
  with ns obtain ext where b: "?b = stem ?b @ ''.'' @ ext"
    using stem_dot by blast
  have same: "stem ?b = stem tif"
    using ns by (simp add: stem_def basename_name)
  have "CHR ''/'' \<notin> set (stem tif @ ''_out.tif'')"
    using set_stem [of tif] ns by auto
  then have dst: "os_path_join ''data/intermediate_tif/viirs'' [d, n @ ''_out.tif'']
      = ?D @ (if ?D = [] \<or> endswith ?D ''/'' then [] else ''/'') @ stem tif @ ''_out.tif''"
    by (simp add: os_path_join_def d n path_join_name)
  have src: "tif = ?D @ (if ?D = [] \<or> endswith ?D ''/'' then [] else ''/'') @ stem tif @ ''.'' @ ext"
    using tif b same ns by (metis path_join_name)
  show ?thesis
  proof
    assume "tif = os_path_join ''data/intermediate_tif/viirs'' [d, n @ ''_out.tif'']"
    with dst src have "stem tif @ ''.'' @ ext = stem tif @ ''_out.tif''"
      by (metis same_append_eq)
    then show False by simp
  qed
qed

subsection \<open>A whole run\<close>

text \<open>The example date, from the granule to the mosaic.\<close>

lemma ex_proc_inputs: "proc_inputs ex_date (ex_fs ex_snow) = [(ex_date, ex_scene)]"
  unfolding proc_inputs_def ex_granule_dir
  by (simp add: glob_star_def ex_fs_def ex_scene_def string_defs)

lemma ex_stem_g: "stem ''data/intermediate_tif/viirs/2020.01.01/g.tif'' = ''g''"
  by (simp add: string_defs)

lemma ex_reproj_args:
  "reproj_args ex_date ex_fs_converted =
     [(ex_date, ''g'', ''data/intermediate_tif/viirs/2020.01.01/g.tif'', ''EPSG:4326'')]"
  unfolding reproj_args_def ex_intermediate_pth
  by (simp add: glob_star_def ex_fs_converted_def ex_fs_def ex_scene_def ex_stem_g)
     (simp add: string_defs)



subsection \<open>A second run\<close>

text \<open>
  The file systems of the example, file by file. The granule's path is absolute and
  the paths of the rasters are relative.
\<close>

lemma ex_scene_absolute: "ex_scene \<noteq> CHR ''d'' # t" "CHR ''d'' # t \<noteq> ex_scene"
  by (simp_all add: ex_scene_def)

lemma ex_fs_done_files:
  "ex_fs_done =
     [(ex_scene, Granule (ex_granule ex_snow)),
      (''data/intermediate_tif/viirs/2020.01.01/g.tif'', Raster ex_tif),
      (''data/intermediate_tif/viirs/2020.01.01/g_out.tif'', Raster ex_out),
      (''data/intermediate_tif/viirs/2020.01.01/final.tif'', Raster ex_final)]"
  by (simp add: ex_fs_done_def ex_fs_reprojected_def ex_fs_converted_def ex_fs_def)




lemma ex_proc_inputs_again: "proc_inputs ex_date ex_fs_done = [(ex_date, ex_scene)]"
  unfolding proc_inputs_def ex_granule_dir ex_fs_done_files
  by (simp add: glob_star_def ex_scene_def string_defs)

lemma ex_basenames:
  "basename ''data/intermediate_tif/viirs/2020.01.01/g.tif'' = ''g.tif''"
  "basename ''data/intermediate_tif/viirs/2020.01.01/g_out.tif'' = ''g_out.tif''"
  "basename ''data/intermediate_tif/viirs/2020.01.01/final.tif'' = ''final.tif''"
  "basename ''data/intermediate_tif/viirs/2020.01.01/g_out_out.tif'' = ''g_out_out.tif''"
  "basename ''data/intermediate_tif/viirs/2020.01.01/final_out.tif'' = ''final_out.tif''"
  "basename ex_scene = ''g.h5''"
  by (simp_all add: basename_def ex_scene_def)

lemma ex_stems:
  "stem ''data/intermediate_tif/viirs/2020.01.01/g_out.tif'' = ''g_out''"
  "stem ''data/intermediate_tif/viirs/2020.01.01/final.tif'' = ''final''"
  unfolding stem_def ex_basenames by (simp_all add: startswith_def)

lemma ex_in_dir:
  "path_join ''data/intermediate_tif/viirs/2020.01.01'' ''g.tif''
     = ''data/intermediate_tif/viirs/2020.01.01/g.tif''"
  "path_join ''data/intermediate_tif/viirs/2020.01.01'' ''g_out.tif''
     = ''data/intermediate_tif/viirs/2020.01.01/g_out.tif''"
  "path_join ''data/intermediate_tif/viirs/2020.01.01'' ''final.tif''
     = ''data/intermediate_tif/viirs/2020.01.01/final.tif''"
  "path_join ''data/intermediate_tif/viirs/2020.01.01'' ''g_out_out.tif''
     = ''data/intermediate_tif/viirs/2020.01.01/g_out_out.tif''"
  "path_join ''data/intermediate_tif/viirs/2020.01.01'' ''final_out.tif''
     = ''data/intermediate_tif/viirs/2020.01.01/final_out.tif''"
  by (simp_all add: path_join_def startswith_def endswith_def)

lemma ex_not_in_dir:
  "ex_scene \<noteq> path_join ''data/intermediate_tif/viirs/2020.01.01'' ''g.h5''"
  by (simp add: path_join_def startswith_def endswith_def ex_scene_absolute)

lemma ex_reproj_args_again:
  "reproj_args ex_date ex_fs_done =
     [(ex_date, ''g'', ''data/intermediate_tif/viirs/2020.01.01/g.tif'', ''EPSG:4326''),
      (ex_date, ''g_out'', ''data/intermediate_tif/viirs/2020.01.01/g_out.tif'', ''EPSG:4326''),
      (ex_date, ''final'', ''data/intermediate_tif/viirs/2020.01.01/final.tif'', ''EPSG:4326'')]"
  unfolding reproj_args_def ex_intermediate_pth ex_fs_done_files glob_star_def
  by (simp add: ex_basenames ex_in_dir ex_not_in_dir ex_stem_g ex_stems)
     (simp add: startswith_def endswith_def)

text \<open>A unit of the Reproject batch under \<open>ex_lib\<close>, for a raster of one band.\<close>

lemma bounds_tuple:
  "bounds r =
     (fst (bounds r), fst (snd (bounds r)), fst (snd (snd (bounds r))), snd (snd (snd (bounds r))))"
  by simp



lemma ex_intermediate_tifs:
  "intermediate_tif ex_date ''g_out'' = ''data/intermediate_tif/viirs/2020.01.01/g_out_out.tif''"
  "intermediate_tif ex_date ''final'' = ''data/intermediate_tif/viirs/2020.01.01/final_out.tif''"
  by (simp_all add: intermediate_tif_def ex_date_def string_defs)





text \<open>The Mosaic stage of the second run: three sources.\<close>

lemma ex_glob_again:
  "glob_star
     (ex_fs_done @
        [(''data/intermediate_tif/viirs/2020.01.01/g_out_out.tif'', Raster ex_out),
         (''data/intermediate_tif/viirs/2020.01.01/final_out.tif'', Raster ex_final_out)])
     (intermediate_pth ex_date) ''_out.tif''
   = [''data/intermediate_tif/viirs/2020.01.01/g_out.tif'',
      ''data/intermediate_tif/viirs/2020.01.01/g_out_out.tif'',
      ''data/intermediate_tif/viirs/2020.01.01/final_out.tif'']"
  unfolding ex_intermediate_pth ex_fs_done_files glob_star_def
  by (simp add: ex_basenames ex_in_dir ex_not_in_dir)
     (simp add: startswith_def endswith_def)





subsection \<open>A second run, whatever the libraries compute\<close>

text \<open>
  The two runs above are evaluated with the example library. What the raster library
  computes decides the pixels, not the files: with any library that reads the granule's
  corner, the first run leaves four files and the second six, and the second mosaic is
  merged from three sources.
\<close>

lemma ex_build_lib:
  assumes "py_float lib = ex_float"
    and "h5py_File fs ex_scene = Inr (ex_granule ex_snow)"
  shows "build_viirs_tif lib ex_date ex_scene fs =
           (Inr (), AList.update ''data/intermediate_tif/viirs/2020.01.01/g.tif'' (Raster ex_tif) fs)"
proof -
  have ul: "upper_left lib ex_md = Inr (- 8895604.157333, 5559752.598333)"
    by (simp add: ex_md_def upper_left_def ulc_fields_def float_of_def assms(1) ex_float_def
        bind_err_def string_defs)
  have rg: "read_granule lib (ex_granule ex_snow) =
      Inr (Scalar (IntV 250), [[1, 2], [3, 4]],
           (- 8895604.157333, 375, 0, 5559752.598333, 0, - 375), 2, 2)"
    by (simp add: read_granule_def ex_snow_dataset ex_fileMetadata ul ex_lrc ex_fillValue ex_rows
        bind_err_def Let_def)
  show ?thesis
    by (simp add: build_viirs_tif_def assms(2) rg float_value_def created_def ex_tif_def ex_dest)
qed

lemma reproject_viirs_writes:
  "\<exists>dst. \<forall>fs date name src_path.
     rio_open fs src_path = Inr src \<longrightarrow>
     reproject_viirs lib date name src_path dst_crs fs =
       (Inr (), AList.update (intermediate_tif date name) (Raster dst) fs)"
proof -
  obtain T W H where
    "calculate_default_transform lib (crs src) dst_crs (width src) (height src)
       (fst (bounds src)) (fst (snd (bounds src))) (fst (snd (snd (bounds src))))
       (snd (snd (snd (bounds src)))) resolution = (T, W, H)"
    by (metis prod_cases3)
  then show ?thesis
    using reproject_viirs_eval [OF _ bounds_tuple, of _ _ src lib dst_crs T W H] by blast
qed

text \<open>Which files \<^verbatim>\<open>glob\<close> finds depends on the names in the directory alone.\<close>

lemma glob_star_names: "map fst fs = map fst fs' \<Longrightarrow> glob_star fs dir suffix = glob_star fs' dir suffix"
  by (simp add: glob_star_def)

lemma proc_inputs_names: "map fst fs = map fst fs' \<Longrightarrow> proc_inputs date fs = proc_inputs date fs'"
  by (simp add: proc_inputs_def glob_star_names [of fs fs'])

lemma reproj_args_names: "map fst fs = map fst fs' \<Longrightarrow> reproj_args date fs = reproj_args date fs'"
  by (simp add: reproj_args_def glob_star_names [of fs fs'])

lemma second_run_any_library:
  assumes "py_float lib = ex_float"
  shows "\<exists>out final out2 final_out final2.
           process_viirs lib ex_date (ex_fs ex_snow) =
             (Inr (),
              [(ex_scene, Granule (ex_granule ex_snow)),
               (''data/intermediate_tif/viirs/2020.01.01/g.tif'', Raster ex_tif),
               (''data/intermediate_tif/viirs/2020.01.01/g_out.tif'', Raster out),
               (''data/intermediate_tif/viirs/2020.01.01/final.tif'', Raster final)]) \<and>
           process_viirs lib ex_date
             [(ex_scene, Granule (ex_granule ex_snow)),
              (''data/intermediate_tif/viirs/2020.01.01/g.tif'', Raster ex_tif),
              (''data/intermediate_tif/viirs/2020.01.01/g_out.tif'', Raster out),
              (''data/intermediate_tif/viirs/2020.01.01/final.tif'', Raster final)] =
             (Inr (),
              [(ex_scene, Granule (ex_granule ex_snow)),
               (''data/intermediate_tif/viirs/2020.01.01/g.tif'', Raster ex_tif),
               (''data/intermediate_tif/viirs/2020.01.01/g_out.tif'', Raster out),
               (''data/intermediate_tif/viirs/2020.01.01/final.tif'', Raster final2),
               (''data/intermediate_tif/viirs/2020.01.01/g_out_out.tif'', Raster out2),
               (''data/intermediate_tif/viirs/2020.01.01/final_out.tif'', Raster final_out)]) \<and>
           bands final =
             merge_cells lib [out]
               (- 140.977, 0.006659501656959246, 0, 63.134, 0, - 0.006659501656959246) 2489 4303 \<and>
           bands final2 =
             merge_cells lib [out, out2, final_out]
               (- 140.977, 0.006659501656959246, 0, 63.134, 0, - 0.006659501656959246) 2489 4303"
proof -
  let ?G = "(ex_scene, Granule (ex_granule ex_snow))"
  let ?g = "''data/intermediate_tif/viirs/2020.01.01/g.tif''"
  let ?g_out = "''data/intermediate_tif/viirs/2020.01.01/g_out.tif''"
  let ?fin = "''data/intermediate_tif/viirs/2020.01.01/final.tif''"
  let ?g_out_out = "''data/intermediate_tif/viirs/2020.01.01/g_out_out.tif''"
  let ?fin_out = "''data/intermediate_tif/viirs/2020.01.01/final_out.tif''"
  let ?T = "(- 140.977, 0.006659501656959246, 0, 63.134, 0, - 0.006659501656959246)
              :: geotransform"
  let ?unit = "\<lambda>(date, name, src, dst_crs). reproject_viirs lib date name src dst_crs"
  obtain out where out: "\<And>fs date name p. rio_open fs p = Inr ex_tif \<Longrightarrow>
      reproject_viirs lib date name p ''EPSG:4326'' fs =
        (Inr (), AList.update (intermediate_tif date name) (Raster out) fs)"
    using reproject_viirs_writes [of ex_tif lib "''EPSG:4326''"] by blast
  obtain out2 where out2: "\<And>fs date name p. rio_open fs p = Inr out \<Longrightarrow>
      reproject_viirs lib date name p ''EPSG:4326'' fs =
        (Inr (), AList.update (intermediate_tif date name) (Raster out2) fs)"
    using reproject_viirs_writes [of out lib "''EPSG:4326''"] by blast
  define final where "final = out \<lparr> driver := ''GTiff'', height := 2489, width := 4303,
      transform := ?T, bands := merge_cells lib [out] ?T 2489 4303 \<rparr>"
  obtain final_out where final_out: "\<And>fs date name p. rio_open fs p = Inr final \<Longrightarrow>
      reproject_viirs lib date name p ''EPSG:4326'' fs =
        (Inr (), AList.update (intermediate_tif date name) (Raster final_out) fs)"
    using reproject_viirs_writes [of final lib "''EPSG:4326''"] by blast
  define final2 where "final2 = final_out \<lparr> driver := ''GTiff'', height := 2489, width := 4303,
      transform := ?T, bands := merge_cells lib [out, out2, final_out] ?T 2489 4303 \<rparr>"
  let ?F2 = "[?G, (?g, Raster ex_tif)]"
  let ?F3 = "[?G, (?g, Raster ex_tif), (?g_out, Raster out)]"
  let ?F4 = "[?G, (?g, Raster ex_tif), (?g_out, Raster out), (?fin, Raster final)]"
  let ?F5 = "[?G, (?g, Raster ex_tif), (?g_out, Raster out), (?fin, Raster final),
              (?g_out_out, Raster out2)]"
  let ?F6 = "[?G, (?g, Raster ex_tif), (?g_out, Raster out), (?fin, Raster final),
              (?g_out_out, Raster out2), (?fin_out, Raster final_out)]"
  let ?F7 = "[?G, (?g, Raster ex_tif), (?g_out, Raster out), (?fin, Raster final2),
              (?g_out_out, Raster out2), (?fin_out, Raster final_out)]"
  have F1: "ex_fs ex_snow = [?G]"
    by (simp add: ex_fs_def)
  have "build_viirs_tif lib ex_date ex_scene [?G] = (Inr (), ?F2)"
    using ex_build_lib [OF assms, of "[?G]"] by (simp add: h5py_File_def ex_scene_absolute)
  then have a1: "distribute (\<lambda>(date, scene). build_viirs_tif lib date scene)
      (proc_inputs ex_date [?G]) [?G] = (Inr (), ?F2)"
    using ex_proc_inputs by (simp add: F1)
  have "reproj_args ex_date ?F2 = reproj_args ex_date ex_fs_converted"
    by (rule reproj_args_names) (simp add: ex_fs_converted_def ex_fs_def)
  moreover have "reproject_viirs lib ex_date ''g'' ?g ''EPSG:4326'' ?F2 = (Inr (), ?F3)"
    using out [of ?F2 ?g ex_date "''g''"]
    by (simp add: rio_open_def ex_scene_absolute ex_intermediate_tif)
  ultimately have a2: "distribute ?unit (reproj_args ex_date ?F2) ?F2 = (Inr (), ?F3)"
    by (simp add: ex_reproj_args)
  have g3: "glob_star ?F3 (intermediate_pth ex_date) ''_out.tif'' = [?g_out]"
  proof -
    have "glob_star ?F3 (intermediate_pth ex_date) ''_out.tif''
        = glob_star ex_fs_reprojected (intermediate_pth ex_date) ''_out.tif''"
      by (rule glob_star_names)
         (simp add: ex_fs_reprojected_def ex_fs_converted_def ex_fs_def)
    then show ?thesis
      by (simp only: ex_glob_out)
  qed
  have "map (map_of ?F3) (glob_star ?F3 (intermediate_pth ex_date) ''_out.tif'')
      = map (\<lambda>src. Some (Raster src)) [out]"
    unfolding g3 by (simp add: ex_scene_absolute)
  then have "open_all ?F3 (glob_star ?F3 (intermediate_pth ex_date) ''_out.tif'') = Inr [out]"
    by (rule open_all_rasters)
  then have "create_viirs_mosaic lib (intermediate_pth ex_date) ?F3 =
      (Inr (), AList.update ?fin (Raster final) ?F3)"
    using create_viirs_mosaic_eval [of ?F3 "intermediate_pth ex_date" "[out]" lib]
    by (simp add: ex_int_pth final_def)
  then have a3: "create_viirs_mosaic lib (intermediate_pth ex_date) ?F3 = (Inr (), ?F4)"
    by (simp add: ex_scene_absolute)
  have run1: "process_viirs lib ex_date (ex_fs ex_snow) = (Inr (), ?F4)"
    unfolding F1 by (simp add: process_viirs_def a1 a2 a3)
  have "proc_inputs ex_date ?F4 = proc_inputs ex_date ex_fs_done"
    by (rule proc_inputs_names) (simp add: ex_fs_done_files)
  moreover have "build_viirs_tif lib ex_date ex_scene ?F4 = (Inr (), ?F4)"
    using ex_build_lib [OF assms, of ?F4] by (simp add: h5py_File_def ex_scene_absolute)
  ultimately have b1: "distribute (\<lambda>(date, scene). build_viirs_tif lib date scene)
      (proc_inputs ex_date ?F4) ?F4 = (Inr (), ?F4)"
    by (simp add: ex_proc_inputs_again)
  have args: "reproj_args ex_date ?F4 = reproj_args ex_date ex_fs_done"
    by (rule reproj_args_names) (simp add: ex_fs_done_files)
  have u1: "reproject_viirs lib ex_date ''g'' ?g ''EPSG:4326'' ?F4 = (Inr (), ?F4)"
    using out [of ?F4 ?g ex_date "''g''"]
    by (simp add: rio_open_def ex_scene_absolute ex_intermediate_tif)
  have u2: "reproject_viirs lib ex_date ''g_out'' ?g_out ''EPSG:4326'' ?F4 = (Inr (), ?F5)"
    using out2 [of ?F4 ?g_out ex_date "''g_out''"]
    by (simp add: rio_open_def ex_scene_absolute ex_intermediate_tifs)
  have u3: "reproject_viirs lib ex_date ''final'' ?fin ''EPSG:4326'' ?F5 = (Inr (), ?F6)"
    using final_out [of ?F5 ?fin ex_date "''final''"]
    by (simp add: rio_open_def ex_scene_absolute ex_intermediate_tifs)
  have b2: "distribute ?unit (reproj_args ex_date ?F4) ?F4 = (Inr (), ?F6)"
    unfolding args ex_reproj_args_again by (simp add: u1 u2 u3)
  have g6: "glob_star ?F6 (intermediate_pth ex_date) ''_out.tif'' = [?g_out, ?g_out_out, ?fin_out]"
  proof -
    have "glob_star ?F6 (intermediate_pth ex_date) ''_out.tif''
        = glob_star
            (ex_fs_done @ [(?g_out_out, Raster ex_out), (?fin_out, Raster ex_final_out)])
            (intermediate_pth ex_date) ''_out.tif''"
      by (rule glob_star_names) (simp add: ex_fs_done_files)
    then show ?thesis
      by (simp only: ex_glob_again)
  qed
  have "map (map_of ?F6) (glob_star ?F6 (intermediate_pth ex_date) ''_out.tif'')
      = map (\<lambda>src. Some (Raster src)) [out, out2, final_out]"
    unfolding g6 by (simp add: ex_scene_absolute)
  then have "open_all ?F6 (glob_star ?F6 (intermediate_pth ex_date) ''_out.tif'')
      = Inr [out, out2, final_out]"
    by (rule open_all_rasters)
  then have "create_viirs_mosaic lib (intermediate_pth ex_date) ?F6 =
      (Inr (), AList.update ?fin (Raster final2) ?F6)"
    using create_viirs_mosaic_eval
      [of ?F6 "intermediate_pth ex_date" "[out, out2, final_out]" lib]
    by (simp add: ex_int_pth final2_def)
  then have b3: "create_viirs_mosaic lib (intermediate_pth ex_date) ?F6 = (Inr (), ?F7)"
    by (simp add: ex_scene_absolute)
  have run2: "process_viirs lib ex_date ?F4 = (Inr (), ?F7)"
    by (simp add: process_viirs_def b1 b2 b3)
  have "bands final = merge_cells lib [out] ?T 2489 4303"
    and "bands final2 = merge_cells lib [out, out2, final_out] ?T 2489 4303"
    by (simp_all add: final_def final2_def)
  with run1 run2 show ?thesis
    by blast
qed

end
